theory Spec2Isabelle
  imports Complex_Main "HOL-Library.Multiset"
begin

section \<open>The order service of the shop backend\<close>

text \<open>
  The module under study is the order service, \<^verbatim>\<open>OrderService\<close>: seven asynchronous
  functions that read and write a relational database through the Prisma client.  Each
  function is embedded as a HOL function over an explicit database state.
  A function that throws returns \<open>Inl\<close> of an \<open>error\<close>; a function that writes returns
  the new database beside its result.
\<close>

subsection \<open>Errors\<close>

text \<open>
  \<open>ApiError code message\<close> is \<^verbatim>\<open>new ApiError(code, message)\<close>, \<open>Error message\<close> is the
  plain JavaScript \<^verbatim>\<open>new Error(message)\<close>.  The remaining constructors are what the
  libraries throw: the Prisma client when a query does not validate against the schema,
  when \<^verbatim>\<open>findUniqueOrThrow\<close> finds no row and when the database rejects a write, and
  the payment gateway call.
\<close>

datatype error =
    ApiError nat string
  | Error string
  | PrismaValidationError
  | PrismaNotFoundError
  | PrismaRequestError string
  | PaymentError string

fun statusCode :: "error \<Rightarrow> nat option" where
  "statusCode (ApiError c m) = Some c"
| "statusCode e = None"

subsection \<open>Tables\<close>

text \<open>
  One record per model of the schema, with the columns the service reads or writes.
  Identifiers are strings; amounts and quantities are integers (the service only copies
  them).  A table is the list of its rows in insertion order.
\<close>

record customer =
  customerId :: string
  email :: string

record vendor =
  vendorId :: string
  vendor_email :: string

record shop =
  shopId :: string
  isBlackListed :: bool
  shop_vendorId :: string

text \<open>A line item as the request carries it, and as stored with the order it belongs to.\<close>

record item_input =
  item_shopId :: string
  productId :: string
  item_size :: string
  quantity :: int
  price :: int
  discount :: int

record order_item = item_input +
  item_orderId :: string

text \<open>
  The scalar columns of an order.  \<open>status\<close> holds a member of the schema's
  \<^verbatim>\<open>ORDER_STATUS\<close> enum by its name, as the client delivers it to JavaScript;
  \<open>createdAt\<close> is a time in milliseconds.
\<close>

record order =
  order_id :: string
  couponId :: "string option"
  subTotal :: int
  order_total :: int
  discounts :: int
  order_customerId :: string
  transactionId :: string
  paymentStatus :: string
  status :: string
  createdAt :: nat

text \<open>
  What the service's code does not show of the schema and of the client's reading of
  query values: the members of the two status enums beyond those the code names, and
  the time that a date-time string denotes (\<open>None\<close> for a string that is not a date-time
  in ISO 8601 form).
\<close>

record prisma_schema =
  more_ORDER_STATUS :: "string list"
  more_PAYMENT_STATUS :: "string list"
  parse_DateTime :: "string \<Rightarrow> nat option"

record db =
  schema :: prisma_schema
  customers :: "customer list"
  vendors :: "vendor list"
  shops :: "shop list"
  orders :: "order list"
  orderItems :: "order_item list"

text \<open>
  The members of the enums.  The service uses PENDING, ONGOING and DELIVERED as values of
  \<^verbatim>\<open>ORDER_STATUS\<close> and PENDING as a payment status, so these are members.
\<close>

definition ORDER_STATUS :: "db \<Rightarrow> string list" where
  "ORDER_STATUS d = [''PENDING'', ''ONGOING'', ''DELIVERED''] @ more_ORDER_STATUS (schema d)"

definition PAYMENT_STATUS :: "db \<Rightarrow> string list" where
  "PAYMENT_STATUS d = [''PENDING''] @ more_PAYMENT_STATUS (schema d)"

subsection \<open>Requests\<close>

record IOrderRequest =
  req_couponId :: "string option"
  req_subTotal :: int
  req_total :: int
  req_discounts :: int
  req_items :: "item_input list"

record user_data =
  role :: string
  userEmail :: string

subsection \<open>Printing numbers in template strings\<close>

text \<open>A template literal prints a non-negative integer in decimal.\<close>

fun show_nat :: "nat \<Rightarrow> string" where
  "show_nat n =
     (if n < 10 then [''0123456789'' ! n]
      else show_nat (n div 10) @ [''0123456789'' ! (n mod 10)])"

declare show_nat.simps [simp del]

text \<open>Reading a decimal numeral back: the number that a string of digits denotes.\<close>

definition digit_value :: "char \<Rightarrow> nat" where
  "digit_value c = of_char c - 48"

definition read_nat :: "string \<Rightarrow> nat" where
  "read_nat s = foldl (\<lambda>a c. 10 * a + digit_value c) 0 s"

subsection \<open>Order creation\<close>

text \<open>
  What the surroundings supply to one call of \<^verbatim>\<open>createOrderIntoDB\<close>:
  \<^item> \<open>date_now\<close> is \<^verbatim>\<open>Date.now()\<close> and \<open>random_num\<close> is
    \<^verbatim>\<open>Math.floor(Math.random() * 100000)\<close>;
  \<^item> \<open>new_id\<close>, \<open>new_status\<close> and \<open>new_createdAt\<close> are the values the database
    gives the columns that the create call does not set (the schema's defaults);
  \<^item> \<open>insert_error\<close> is the error with which the database rejects the insert, if it
    does (a constraint of the schema).
\<close>

record create_env =
  date_now :: nat
  random_num :: nat
  new_id :: string
  new_status :: string
  new_createdAt :: nat
  insert_error :: "error option"

text \<open>The argument of \<^verbatim>\<open>initiatePayment\<close>.\<close>

record payment_request =
  orderData :: int
  txn :: string
  customerData :: customer
  orderId :: string

text \<open>The value \<^verbatim>\<open>createOrderIntoDB\<close> returns: the order's columns and \<open>payLink\<close>.\<close>

record created_order = order +
  payLink :: string

definition customer_findUnique :: "db \<Rightarrow> string \<Rightarrow> customer option" where
  "customer_findUnique d e = find (\<lambda>c. email c = e) (customers d)"

definition blacklistedShopIds :: "db \<Rightarrow> string list" where
  "blacklistedShopIds d = map shopId (filter isBlackListed (shops d))"

definition blacklistedInOrder :: "db \<Rightarrow> IOrderRequest \<Rightarrow> item_input option" where
  "blacklistedInOrder d orderInfo =
     find (\<lambda>item. item_shopId item \<in> set (blacklistedShopIds d)) (req_items orderInfo)"

definition generateTransactionId :: "create_env \<Rightarrow> string" where
  "generateTransactionId env =
     ''TXN-'' @ show_nat (date_now env) @ ''-'' @ show_nat (random_num env)"

definition new_order :: "create_env \<Rightarrow> IOrderRequest \<Rightarrow> customer \<Rightarrow> order" where
  "new_order env orderInfo c =
     \<lparr> order_id = new_id env,
       couponId = req_couponId orderInfo,
       subTotal = req_subTotal orderInfo,
       order_total = req_total orderInfo,
       discounts = req_discounts orderInfo,
       order_customerId = customerId c,
       transactionId = generateTransactionId env,
       paymentStatus = ''PENDING'',
       status = new_status env,
       createdAt = new_createdAt env \<rparr>"

definition new_item :: "string \<Rightarrow> item_input \<Rightarrow> order_item" where
  "new_item oid item =
     \<lparr> item_shopId = item_shopId item,
       productId = productId item,
       item_size = item_size item,
       quantity = quantity item,
       price = price item,
       discount = discount item,
       item_orderId = oid \<rparr>"

text \<open>
  \<^verbatim>\<open>prisma.order.create\<close> with the nested \<^verbatim>\<open>items: { create: [...] }\<close>: one write that
  adds the order row and one item row per line item, or adds nothing.
\<close>

definition order_create :: "create_env \<Rightarrow> db \<Rightarrow> order \<Rightarrow> item_input list \<Rightarrow> (error + order) \<times> db" where
  "order_create env d row its =
     (case insert_error env of
        Some e \<Rightarrow> (Inl e, d)
      | None \<Rightarrow>
          (Inr row,
           d\<lparr> orders := orders d @ [row],
              orderItems := orderItems d @ map (new_item (order_id row)) its \<rparr>))"

text \<open>
  \<^verbatim>\<open>initiatePayment\<close> lives in the payment module and is a parameter here: it maps the
  request to \<^verbatim>\<open>paymentInfo.data.payment_url\<close>, or throws.
\<close>

definition createOrderIntoDB ::
  "create_env \<Rightarrow> (payment_request \<Rightarrow> error + string) \<Rightarrow> db \<Rightarrow> IOrderRequest \<Rightarrow> user_data
     \<Rightarrow> (error + created_order) \<times> db" where
  "createOrderIntoDB env initiatePayment d orderInfo userData =
     (case customer_findUnique d (userEmail userData) of
        None \<Rightarrow> (Inl (ApiError 404 ''Customer not found for payment''), d)
      | Some c \<Rightarrow>
          (case blacklistedInOrder d orderInfo of
             Some item \<Rightarrow>
               (Inl (ApiError 400
                  (''Order cannot be placed as shop '' @ item_shopId item @ '' is blacklisted.'')), d)
           | None \<Rightarrow>
               (case order_create env d (new_order env orderInfo c) (req_items orderInfo) of
                  (Inl e, d') \<Rightarrow> (Inl e, d')
                | (Inr row, d') \<Rightarrow>
                    (case initiatePayment
                            \<lparr> orderData = subTotal row, txn = transactionId row,
                              customerData = c, orderId = order_id row \<rparr> of
                       Inl e \<Rightarrow> (Inl e, d')
                     | Inr url \<Rightarrow> (Inr (order.extend row (created_order.fields url)), d')))))"

subsection \<open>Status advancement\<close>

definition order_findUnique :: "db \<Rightarrow> string \<Rightarrow> order option" where
  "order_findUnique d i = find (\<lambda>r. order_id r = i) (orders d)"

text \<open>
  The table \<^verbatim>\<open>statusSequence\<close>, a dictionary from status name to status name.  A
  lookup finds the table's own keys: a status is a member of the enum and never the name
  of a property that every object inherits.
\<close>

definition statusSequence :: "string \<rightharpoonup> string" where
  "statusSequence =
     [''PENDING'' \<mapsto> ''ONGOING'', ''ONGOING'' \<mapsto> ''DELIVERED'', ''DELIVERED'' \<mapsto> ''DELIVERED'']"

text \<open>\<^verbatim>\<open>prisma.order.update\<close> by id: the row with that id gets the new status.\<close>

fun update_status :: "string \<Rightarrow> string \<Rightarrow> order list \<Rightarrow> order list" where
  "update_status i s [] = []"
| "update_status i s (r # rs) =
     (if order_id r = i then r\<lparr>status := s\<rparr> # rs else r # update_status i s rs)"

definition updateOrder :: "db \<Rightarrow> string \<Rightarrow> (error + order) \<times> db" where
  "updateOrder d i =
     (case order_findUnique d i of
        None \<Rightarrow> (Inl (Error (''Order with ID '' @ i @ '' not found'')), d)
      | Some r \<Rightarrow>
          (case statusSequence (status r) of
             None \<Rightarrow> (Inl (Error (''Invalid current status: '' @ status r)), d)
           | Some nextStatus \<Rightarrow>
               (Inr (r\<lparr>status := nextStatus\<rparr>),
                d\<lparr>orders := update_status i nextStatus (orders d)\<rparr>)))"

subsection \<open>Queries on the order table\<close>

text \<open>
  The values a query parameter can hold.  \<open>Boolean\<close> is JavaScript's truthiness test;
  numbers are integers here.
\<close>

datatype jsval = JUndefined | JNull | JBool bool | JNum int | JStr string | JDate nat

fun Boolean :: "jsval \<Rightarrow> bool" where
  "Boolean JUndefined = False"
| "Boolean JNull = False"
| "Boolean (JBool b) = b"
| "Boolean (JNum n) = (n \<noteq> 0)"
| "Boolean (JStr s) = (s \<noteq> [])"
| "Boolean (JDate t) = True"

text \<open>
  The \<^verbatim>\<open>where\<close> arguments the service builds:
  \<^item> \<open>AND ws\<close> is \<^verbatim>\<open>{ AND: [...] }\<close>;
  \<^item> \<open>Equals f v\<close> is \<^verbatim>\<open>{ [f]: { equals: v } }\<close>;
  \<^item> \<open>CustomerIdIs c\<close> is \<^verbatim>\<open>{ customerId: c }\<close>, where \<open>None\<close> is \<^verbatim>\<open>undefined\<close>;
  \<^item> \<open>ItemsSomeShopVendor v\<close> is \<^verbatim>\<open>{ items: { some: { shop: { vendorId: v } } } }\<close>;
  \<^item> \<open>StatusNot s\<close> is \<^verbatim>\<open>{ status: { not: s } }\<close>.
\<close>

datatype where_input =
    AND "where_input list"
  | Equals string jsval
  | CustomerIdIs "string option"
  | ItemsSomeShopVendor string
  | StatusNot string

text \<open>
  The scalar fields of the order model by name, each with the kind of value its filter
  accepts and the value a row holds.  A null coupon reference is \<open>JNull\<close>.  A filter on
  an enum field accepts the names of the enum's members only; a filter on a date-time
  field accepts a date and a string that denotes a date-time.
\<close>

datatype column_kind =
  StringColumn | NumberColumn | DateColumn | StatusColumn | PaymentStatusColumn

fun kind_accepts :: "db \<Rightarrow> column_kind \<Rightarrow> jsval \<Rightarrow> bool" where
  "kind_accepts d StringColumn (JStr s) = True"
| "kind_accepts d NumberColumn (JNum n) = True"
| "kind_accepts d DateColumn (JDate t) = True"
| "kind_accepts d DateColumn (JStr s) = (parse_DateTime (schema d) s \<noteq> None)"
| "kind_accepts d StatusColumn (JStr s) = (s \<in> set (ORDER_STATUS d))"
| "kind_accepts d PaymentStatusColumn (JStr s) = (s \<in> set (PAYMENT_STATUS d))"
| "kind_accepts d k v = False"

text \<open>
  \<open>value_matches d a v\<close>: the value \<open>a\<close> of a row's field equals the filter value \<open>v\<close>.
  A date-time string is compared by the time it denotes.
\<close>

fun value_matches :: "db \<Rightarrow> jsval \<Rightarrow> jsval \<Rightarrow> bool" where
  "value_matches d (JDate t) (JStr s) = (parse_DateTime (schema d) s = Some t)"
| "value_matches d a v = (a = v)"

definition order_columns :: "(string \<times> column_kind \<times> (order \<Rightarrow> jsval)) list" where
  "order_columns =
     [(''id'', StringColumn, \<lambda>r. JStr (order_id r)),
      (''couponId'', StringColumn, \<lambda>r. case couponId r of None \<Rightarrow> JNull | Some c \<Rightarrow> JStr c),
      (''subTotal'', NumberColumn, \<lambda>r. JNum (subTotal r)),
      (''total'', NumberColumn, \<lambda>r. JNum (order_total r)),
      (''discounts'', NumberColumn, \<lambda>r. JNum (discounts r)),
      (''customerId'', StringColumn, \<lambda>r. JStr (order_customerId r)),
      (''transactionId'', StringColumn, \<lambda>r. JStr (transactionId r)),
      (''paymentStatus'', PaymentStatusColumn, \<lambda>r. JStr (paymentStatus r)),
      (''status'', StatusColumn, \<lambda>r. JStr (status r)),
      (''createdAt'', DateColumn, \<lambda>r. JDate (createdAt r))]"

text \<open>
  The client validates a query before it runs it: an equality filter must name a scalar
  field and carry a value that the field's kind accepts, and a status must be a member
  of the enum.  An undefined value is dropped from a query, so \<open>CustomerIdIs None\<close>
  restricts nothing.
\<close>

fun where_valid :: "db \<Rightarrow> where_input \<Rightarrow> bool" where
  "where_valid d (AND ws) = list_all (where_valid d) ws"
| "where_valid d (Equals f v) =
     (case map_of order_columns f of None \<Rightarrow> False | Some (k, g) \<Rightarrow> kind_accepts d k v)"
| "where_valid d (CustomerIdIs c) = True"
| "where_valid d (ItemsSomeShopVendor v) = True"
| "where_valid d (StatusNot s) = (s \<in> set (ORDER_STATUS d))"

fun where_holds :: "db \<Rightarrow> where_input \<Rightarrow> order \<Rightarrow> bool" where
  "where_holds d (AND ws) r = list_all (\<lambda>w. where_holds d w r) ws"
| "where_holds d (Equals f v) r =
     (case map_of order_columns f of None \<Rightarrow> False | Some (k, g) \<Rightarrow> value_matches d (g r) v)"
| "where_holds d (CustomerIdIs None) r = True"
| "where_holds d (CustomerIdIs (Some c)) r = (order_customerId r = c)"
| "where_holds d (ItemsSomeShopVendor v) r =
     list_ex (\<lambda>it. item_orderId it = order_id r \<and>
                    list_ex (\<lambda>s. shopId s = item_shopId it \<and> shop_vendorId s = v) (shops d))
       (orderItems d)"
| "where_holds d (StatusNot s) r = (status r \<noteq> s)"

text \<open>
  Ordering: a field and a direction; the direction is \<open>None\<close> when undefined, and an
  undefined entry is dropped from a query, which then orders nothing.  Otherwise the
  field must be a scalar field and the direction "asc" or "desc".  Rows are compared by
  the value of the field; rows that compare equal keep the order of the table.
\<close>

type_synonym order_by = "string \<times> string option"

fun string_le :: "string \<Rightarrow> string \<Rightarrow> bool" where
  "string_le [] ys = True"
| "string_le (x # xs) [] = False"
| "string_le (x # xs) (y # ys) =
     ((of_char x :: nat) < of_char y \<or> (x = y \<and> string_le xs ys))"

fun jsval_le :: "jsval \<Rightarrow> jsval \<Rightarrow> bool" where
  "jsval_le (JNum a) (JNum b) = (a \<le> b)"
| "jsval_le (JStr a) (JStr b) = string_le a b"
| "jsval_le (JDate a) (JDate b) = (a \<le> b)"
| "jsval_le JNull b = True"
| "jsval_le a b = False"

fun insert_by :: "('a \<Rightarrow> 'a \<Rightarrow> bool) \<Rightarrow> 'a \<Rightarrow> 'a list \<Rightarrow> 'a list" where
  "insert_by le x [] = [x]"
| "insert_by le x (y # ys) = (if le x y then x # y # ys else y # insert_by le x ys)"

fun sort_by :: "('a \<Rightarrow> 'a \<Rightarrow> bool) \<Rightarrow> 'a list \<Rightarrow> 'a list" where
  "sort_by le [] = []"
| "sort_by le (x # xs) = insert_by le x (sort_by le xs)"

definition orderBy_valid :: "order_by \<Rightarrow> bool" where
  "orderBy_valid ob =
     (case snd ob of
        None \<Rightarrow> True
      | Some dir \<Rightarrow> map_of order_columns (fst ob) \<noteq> None \<and> (dir = ''asc'' \<or> dir = ''desc''))"

definition order_rows :: "order_by \<Rightarrow> order list \<Rightarrow> order list" where
  "order_rows ob rs =
     (case snd ob of
        None \<Rightarrow> rs
      | Some dir \<Rightarrow>
          (case map_of order_columns (fst ob) of
             None \<Rightarrow> rs
           | Some (k, g) \<Rightarrow>
               if dir = ''asc'' then sort_by (\<lambda>a b. jsval_le (g a) (g b)) rs
               else sort_by (\<lambda>a b. jsval_le (g b) (g a)) rs))"

text \<open>
  A row as \<^verbatim>\<open>findMany\<close> returns it with \<^verbatim>\<open>include: { items: ... }\<close>: the order's columns
  and its items.  The objects nested further (product, shop, customer) are not part of
  the model.
\<close>

record order_row =
  row_order :: order
  row_items :: "order_item list"

definition include_items :: "db \<Rightarrow> order \<Rightarrow> order_row" where
  "include_items d r =
     \<lparr> row_order = r, row_items = filter (\<lambda>it. item_orderId it = order_id r) (orderItems d) \<rparr>"

record find_args =
  fa_where :: "where_input option"
  fa_skip :: nat
  fa_take :: nat
  fa_orderBy :: order_by

definition matching :: "db \<Rightarrow> where_input option \<Rightarrow> order list" where
  "matching d w = (case w of None \<Rightarrow> orders d | Some c \<Rightarrow> filter (where_holds d c) (orders d))"

definition where_option_valid :: "db \<Rightarrow> where_input option \<Rightarrow> bool" where
  "where_option_valid d w = (case w of None \<Rightarrow> True | Some c \<Rightarrow> where_valid d c)"

definition order_findMany :: "db \<Rightarrow> find_args \<Rightarrow> error + order_row list" where
  "order_findMany d a =
     (if where_option_valid d (fa_where a) \<and> orderBy_valid (fa_orderBy a)
      then Inr (map (include_items d)
                 (take (fa_take a) (drop (fa_skip a)
                    (order_rows (fa_orderBy a) (matching d (fa_where a))))))
      else Inl PrismaValidationError)"

definition order_count :: "db \<Rightarrow> where_input option \<Rightarrow> error + nat" where
  "order_count d w =
     (if where_option_valid d w then Inr (length (matching d w)) else Inl PrismaValidationError)"

subsection \<open>Pagination and the result envelope\<close>

text \<open>
  \<^verbatim>\<open>Math.ceil(total / limit)\<close> for a count and a limit: the quotient of two
  non-negative integers, rounded up; a division by zero gives \<open>Infinity\<close>, or \<open>NaN\<close>
  for \<^verbatim>\<open>0 / 0\<close>.
\<close>

datatype js_number = Finite int | Infinity | NaN

definition Math_ceil_div :: "nat \<Rightarrow> nat \<Rightarrow> js_number" where
  "Math_ceil_div t l =
     (if l = 0 then (if t = 0 then NaN else Infinity)
      else Finite (int ((t + l - 1) div l)))"

record IPaginationOptions =
  opt_page :: "nat option"
  opt_limit :: "nat option"
  opt_sort :: "string option"

record meta_info =
  page :: nat
  limit :: nat
  total :: nat
  totalPage :: js_number

record envelope =
  meta :: meta_info
  data :: "order_row list"

text \<open>\<^verbatim>\<open>s.split("-")\<close>: the pieces of \<open>s\<close> between the separators, at least one.\<close>

fun split_on :: "char \<Rightarrow> string \<Rightarrow> string list" where
  "split_on c [] = [[]]"
| "split_on c (x # xs) =
     (if x = c then [] # split_on c xs
      else (case split_on c xs of [] \<Rightarrow> [[x]] | p # ps \<Rightarrow> (x # p) # ps))"

text \<open>
  The \<^verbatim>\<open>orderBy\<close> argument every listing builds from \<^verbatim>\<open>paginationData?.sort\<close>: an
  absent or empty string is falsy.
\<close>

definition orderBy_of :: "string option \<Rightarrow> order_by" where
  "orderBy_of srt =
     (case srt of
        None \<Rightarrow> (''createdAt'', Some ''desc'')
      | Some s \<Rightarrow>
          if s = [] then (''createdAt'', Some ''desc'')
          else (case split_on CHR ''-'' s of
                  [] \<Rightarrow> ([], None)
                | [f] \<Rightarrow> (f, None)
                | f # dir # rest \<Rightarrow> (f, Some dir)))"

definition envelope_of :: "nat \<Rightarrow> nat \<Rightarrow> nat \<Rightarrow> order_row list \<Rightarrow> envelope" where
  "envelope_of pg lmt tot result =
     \<lparr> meta = \<lparr> page = pg, limit = lmt, total = tot, totalPage = Math_ceil_div tot lmt \<rparr>,
       data = result \<rparr>"

subsection \<open>Listings\<close>

text \<open>
  Query parameters are an object, here the list of its properties in enumeration order.
  \<open>get_prop\<close> reads a property, \<open>filterData\<close> is the rest after \<^verbatim>\<open>searchTerm\<close> is
  destructured out.  \<^verbatim>\<open>paginationHelper.calculatePagination\<close> is a parameter of every
  listing, \<open>calc\<close>: it maps the options to page, limit and skip, non-negative integers.
\<close>

type_synonym params = "(string \<times> jsval) list"

definition get_prop :: "params \<Rightarrow> string \<Rightarrow> jsval" where
  "get_prop ps k = (case map_of ps k of None \<Rightarrow> JUndefined | Some v \<Rightarrow> v)"

definition filterData :: "params \<Rightarrow> params" where
  "filterData ps = filter (\<lambda>kv. fst kv \<noteq> ''searchTerm'') ps"

definition equality_conjuncts :: "params \<Rightarrow> where_input list" where
  "equality_conjuncts fd =
     map (\<lambda>field. Equals field (get_prop fd field))
       (filter (\<lambda>field. Boolean (get_prop fd field)) (map fst fd))"

definition andCondtion_filters :: "params \<Rightarrow> where_input list" where
  "andCondtion_filters ps =
     (if length (map fst (filterData ps)) > 0 then [AND (equality_conjuncts (filterData ps))]
      else [])"

definition whereConditons_customer :: "db \<Rightarrow> user_data \<Rightarrow> params \<Rightarrow> where_input" where
  "whereConditons_customer d userInfo ps =
     AND (andCondtion_filters ps @
          [AND [CustomerIdIs (map_option customerId (customer_findUnique d (userEmail userInfo)))]])"

definition getSingleCustomerAllOrder ::
  "(IPaginationOptions \<Rightarrow> nat \<times> nat \<times> nat) \<Rightarrow> db \<Rightarrow> user_data \<Rightarrow> IPaginationOptions \<Rightarrow> params
     \<Rightarrow> error + envelope" where
  "getSingleCustomerAllOrder calc d userInfo paginationData ps =
     (case calc paginationData of (pg, lmt, skp) \<Rightarrow>
        (case order_findMany d
                \<lparr> fa_where = Some (whereConditons_customer d userInfo ps),
                  fa_skip = skp, fa_take = lmt,
                  fa_orderBy = orderBy_of (opt_sort paginationData) \<rparr> of
           Inl e \<Rightarrow> Inl e
         | Inr result \<Rightarrow>
             (case order_count d None of
                Inl e \<Rightarrow> Inl e
              | Inr tot \<Rightarrow> Inr (envelope_of pg lmt tot result))))"

definition getAllOrder ::
  "(IPaginationOptions \<Rightarrow> nat \<times> nat \<times> nat) \<Rightarrow> db \<Rightarrow> IPaginationOptions \<Rightarrow> error + envelope" where
  "getAllOrder calc d paginationData =
     (case calc paginationData of (pg, lmt, skp) \<Rightarrow>
        (case order_findMany d
                \<lparr> fa_where = None, fa_skip = skp, fa_take = lmt,
                  fa_orderBy = orderBy_of (opt_sort paginationData) \<rparr> of
           Inl e \<Rightarrow> Inl e
         | Inr result \<Rightarrow>
             (case order_count d None of
                Inl e \<Rightarrow> Inl e
              | Inr tot \<Rightarrow> Inr (envelope_of pg lmt tot result))))"

definition getPendingOrder ::
  "(IPaginationOptions \<Rightarrow> nat \<times> nat \<times> nat) \<Rightarrow> db \<Rightarrow> IPaginationOptions \<Rightarrow> error + envelope" where
  "getPendingOrder calc d paginationData =
     (case calc paginationData of (pg, lmt, skp) \<Rightarrow>
        (case order_findMany d
                \<lparr> fa_where = Some (StatusNot ''DELIVERED''), fa_skip = skp, fa_take = lmt,
                  fa_orderBy = orderBy_of (opt_sort paginationData) \<rparr> of
           Inl e \<Rightarrow> Inl e
         | Inr result \<Rightarrow>
             (case order_count d (Some (StatusNot ''DELIVERED'')) of
                Inl e \<Rightarrow> Inl e
              | Inr tot \<Rightarrow> Inr (envelope_of pg lmt tot result))))"

definition getSingleOrder :: "db \<Rightarrow> string \<Rightarrow> error + order_row" where
  "getSingleOrder d i =
     (case order_findUnique d i of
        None \<Rightarrow> Inl PrismaNotFoundError
      | Some r \<Rightarrow> Inr (include_items d r))"

definition vendor_findUniqueOrThrow :: "db \<Rightarrow> string \<Rightarrow> error + vendor" where
  "vendor_findUniqueOrThrow d e =
     (case find (\<lambda>v. vendor_email v = e) (vendors d) of
        None \<Rightarrow> Inl PrismaNotFoundError
      | Some v \<Rightarrow> Inr v)"

definition whereConditons_shop :: "vendor \<Rightarrow> params \<Rightarrow> where_input" where
  "whereConditons_shop v ps =
     AND (andCondtion_filters ps @ [AND [ItemsSomeShopVendor (vendorId v)]])"

definition getSpecificShopOrder ::
  "(IPaginationOptions \<Rightarrow> nat \<times> nat \<times> nat) \<Rightarrow> db \<Rightarrow> user_data \<Rightarrow> IPaginationOptions \<Rightarrow> params
     \<Rightarrow> error + envelope" where
  "getSpecificShopOrder calc d userData paginationData ps =
     (case vendor_findUniqueOrThrow d (userEmail userData) of
        Inl e \<Rightarrow> Inl e
      | Inr v \<Rightarrow>
          (case calc paginationData of (pg, lmt, skp) \<Rightarrow>
             (case order_findMany d
                     \<lparr> fa_where = Some (whereConditons_shop v ps),
                       fa_skip = skp, fa_take = lmt,
                       fa_orderBy = orderBy_of (opt_sort paginationData) \<rparr> of
                Inl e \<Rightarrow> Inl e
              | Inr orders' \<Rightarrow>
                  (case order_count d (Some (whereConditons_shop v ps)) of
                     Inl e \<Rightarrow> Inl e
                   | Inr tot \<Rightarrow> Inr (envelope_of pg lmt tot orders')))))"

subsection \<open>Repeated status advancement\<close>

text \<open>
  \<open>updateOrder_times n d i\<close> is the database after \<open>n\<close> calls of \<^verbatim>\<open>updateOrder(i)\<close>, one
  after the other; \<open>status_rank\<close> is the position of a status in the sequence
  PENDING, ONGOING, DELIVERED.
\<close>

fun updateOrder_times :: "nat \<Rightarrow> db \<Rightarrow> string \<Rightarrow> db" where
  "updateOrder_times 0 d i = d"
| "updateOrder_times (Suc n) d i = updateOrder_times n (snd (updateOrder d i)) i"

definition status_rank :: "string \<Rightarrow> nat" where
  "status_rank s = (if s = ''PENDING'' then 0 else if s = ''ONGOING'' then 1 else 2)"

subsection \<open>A small database for concrete runs\<close>

definition ex_customer :: customer where
  "ex_customer = \<lparr> customerId = ''c1'', email = ''ann@example.com'' \<rparr>"

definition ex_vendor :: vendor where
  "ex_vendor = \<lparr> vendorId = ''v1'', vendor_email = ''vic@example.com'' \<rparr>"

definition ex_item :: "string \<Rightarrow> item_input" where
  "ex_item s = \<lparr> item_shopId = s, productId = ''p1'', item_size = ''M'', quantity = 2,
                 price = 500, discount = 0 \<rparr>"

definition ex_order :: "string \<Rightarrow> string \<Rightarrow> string \<Rightarrow> nat \<Rightarrow> order" where
  "ex_order i c s t =
     \<lparr> order_id = i, couponId = None, subTotal = 1000, order_total = 1000, discounts = 0,
       order_customerId = c, transactionId = ''TXN-1-'' @ i, paymentStatus = ''PENDING'',
       status = s, createdAt = t \<rparr>"

text \<open>
  The schema of the runs has no further enum members, and its client knows the
  date-time string of millisecond 10.
\<close>

definition ex_schema :: prisma_schema where
  "ex_schema =
     \<lparr> more_ORDER_STATUS = [], more_PAYMENT_STATUS = [],
       parse_DateTime = (\<lambda>s. if s = ''1970-01-01T00:00:00.010Z'' then Some 10 else None) \<rparr>"

definition ex_db :: db where
  "ex_db =
     \<lparr> schema = ex_schema,
       customers = [ex_customer],
       vendors = [ex_vendor],
       shops = [\<lparr> shopId = ''s1'', isBlackListed = False, shop_vendorId = ''v1'' \<rparr>,
                \<lparr> shopId = ''s2'', isBlackListed = True, shop_vendorId = ''v2'' \<rparr>],
       orders = [ex_order ''o1'' ''c1'' ''PENDING'' 10, ex_order ''o2'' ''c2'' ''DELIVERED'' 20,
                 ex_order ''o3'' ''c1'' ''ONGOING'' 30],
       orderItems = [new_item ''o1'' (ex_item ''s1''), new_item ''o2'' (ex_item ''s2''),
                     new_item ''o3'' (ex_item ''s1'')] \<rparr>"

definition ex_env :: create_env where
  "ex_env = \<lparr> date_now = 1730000000000, random_num = 4711, new_id = ''o4'',
              new_status = ''PENDING'', new_createdAt = 40, insert_error = None \<rparr>"

definition ex_request :: "string list \<Rightarrow> IOrderRequest" where
  "ex_request ss = \<lparr> req_couponId = None, req_subTotal = 1000, req_total = 1000,
                     req_discounts = 0, req_items = map ex_item ss \<rparr>"

definition ex_user :: "string \<Rightarrow> user_data" where
  "ex_user e = \<lparr> role = ''CUSTOMER'', userEmail = e \<rparr>"

definition ex_pay :: "payment_request \<Rightarrow> error + string" where
  "ex_pay q = Inr (''https://pay.example/'' @ txn q)"

text \<open>A pagination helper for the runs: page 1 and ten rows unless the options say more.\<close>

definition ex_calc :: "IPaginationOptions \<Rightarrow> nat \<times> nat \<times> nat" where
  "ex_calc p =
     (let pg = (case opt_page p of None \<Rightarrow> 1 | Some n \<Rightarrow> n);
          lmt = (case opt_limit p of None \<Rightarrow> 10 | Some n \<Rightarrow> n)
      in (pg, lmt, (pg - 1) * lmt))"

definition ex_options :: "string option \<Rightarrow> IPaginationOptions" where
  "ex_options srt = \<lparr> opt_page = None, opt_limit = None, opt_sort = srt \<rparr>"

text \<open>Query parameters for the runs: a truthy one, a falsy one and a search term.\<close>

definition ex_params :: params where
  "ex_params = [(''status'', JStr ''PENDING''), (''couponId'', JStr []),
                (''searchTerm'', JStr ''shoes'')]"

section \<open>Properties\<close>

subsection \<open>Lookups\<close>

lemma customer_findUnique_None:
  "customer_findUnique d e = None \<longleftrightarrow> (\<forall>c \<in> set (customers d). email c \<noteq> e)"
  by (auto simp: customer_findUnique_def find_None_iff)

lemma blacklistedInOrder_None:
  "blacklistedInOrder d req = None \<longleftrightarrow>
     (\<forall>item \<in> set (req_items req). \<forall>s \<in> set (shops d).
        isBlackListed s \<longrightarrow> shopId s \<noteq> item_shopId item)"
  unfolding blacklistedInOrder_def blacklistedShopIds_def find_None_iff
  by (simp add: image_iff) metis

lemma blacklistedInOrder_Some:
  "blacklistedInOrder d req = Some item \<Longrightarrow>
     item \<in> set (req_items req) \<and>
     (\<exists>s \<in> set (shops d). isBlackListed s \<and> shopId s = item_shopId item)"
  by (auto simp: blacklistedInOrder_def blacklistedShopIds_def find_Some_iff)

lemma find_update_status:
  "find (\<lambda>r. order_id r = i) rs = Some r \<Longrightarrow>
   find (\<lambda>r. order_id r = i) (update_status i s rs) = Some (r\<lparr>status := s\<rparr>)"
  by (induction rs) (auto split: if_splits)

subsection \<open>The transition table\<close>

lemma statusSequence_PENDING: "statusSequence ''PENDING'' = Some ''ONGOING''"
  by (simp add: statusSequence_def)

lemma statusSequence_ONGOING: "statusSequence ''ONGOING'' = Some ''DELIVERED''"
  by (simp add: statusSequence_def)

lemma statusSequence_DELIVERED: "statusSequence ''DELIVERED'' = Some ''DELIVERED''"
  by (simp add: statusSequence_def)

lemma statusSequence_cases:
  "statusSequence s = Some t \<Longrightarrow>
     (s = ''PENDING'' \<and> t = ''ONGOING'') \<or> (s = ''ONGOING'' \<and> t = ''DELIVERED'')
     \<or> (s = ''DELIVERED'' \<and> t = ''DELIVERED'')"
  unfolding statusSequence_def by (simp split: if_splits)

lemma statusSequence_rank:
  "statusSequence s = Some t \<Longrightarrow> status_rank s \<le> status_rank t"
  by (drule statusSequence_cases) (auto simp: status_rank_def)

lemma updateOrder_found:
  assumes "order_findUnique d i = Some r" and "statusSequence (status r) = Some t"
  shows "updateOrder d i = (Inr (r\<lparr>status := t\<rparr>), d\<lparr>orders := update_status i t (orders d)\<rparr>)"
    and "order_findUnique (snd (updateOrder d i)) i = Some (r\<lparr>status := t\<rparr>)"
  using assms by (simp_all add: updateOrder_def order_findUnique_def find_update_status)

lemma updateOrder_step_rank:
  assumes "order_findUnique d i = Some r"
  shows "\<exists>r'. order_findUnique (snd (updateOrder d i)) i = Some r' \<and>
              status_rank (status r) \<le> status_rank (status r')"
proof (cases "statusSequence (status r)")
  case None
  then have "snd (updateOrder d i) = d" using assms by (simp add: updateOrder_def)
  then show ?thesis using assms by simp
next
  case (Some t)
  from updateOrder_found(2) [OF assms Some] statusSequence_rank [OF Some]
  show ?thesis by simp
qed

lemma updateOrder_times_rank:
  "order_findUnique d i = Some r \<Longrightarrow>
   \<exists>r'. order_findUnique (updateOrder_times n d i) i = Some r' \<and>
        status_rank (status r) \<le> status_rank (status r')"
proof (induction n arbitrary: d r)
  case 0
  then show ?case by simp
next
  case (Suc n)
  from updateOrder_step_rank [OF Suc.prems] obtain r1 where
    r1: "order_findUnique (snd (updateOrder d i)) i = Some r1"
        "status_rank (status r) \<le> status_rank (status r1)" by blast
  from Suc.IH [OF r1(1)] obtain r' where
    "order_findUnique (updateOrder_times n (snd (updateOrder d i)) i) i = Some r'"
    "status_rank (status r1) \<le> status_rank (status r')" by blast
  with r1(2) show ?case by auto
qed

lemma updateOrder_times_add:
  "updateOrder_times (m + n) d i = updateOrder_times n (updateOrder_times m d i) i"
  by (induction m arbitrary: d) simp_all

subsection \<open>Order creation: the blacklist\<close>

text \<open>
  Claim C1, as the code has it.  The customer lookup comes before the blacklist check, so
  the rejection with code 400 is what a request gets whose user has a customer record:
  if a line item references a blacklisted shop, the call returns \<open>ApiError 400\<close> with the
  message "Order cannot be placed as shop <id> is blacklisted.", where <id> is the id of
  a blacklisted shop that a line item references, and the database is unchanged.
\<close>

theorem createOrder_blacklisted:
  assumes cust: "\<exists>c \<in> set (customers d). email c = userEmail u"
    and bl: "\<exists>item \<in> set (req_items req). \<exists>s \<in> set (shops d).
               isBlackListed s \<and> shopId s = item_shopId item"
  shows "\<exists>item \<in> set (req_items req). \<exists>s \<in> set (shops d).
           isBlackListed s \<and> shopId s = item_shopId item \<and>
           createOrderIntoDB env pay d req u =
             (Inl (ApiError 400
                (''Order cannot be placed as shop '' @ shopId s @ '' is blacklisted.'')), d)"
proof -
  from cust obtain c where c: "customer_findUnique d (userEmail u) = Some c"
    by (cases "customer_findUnique d (userEmail u)") (auto simp: customer_findUnique_None)
  from bl have "blacklistedInOrder d req \<noteq> None"
    by (simp add: blacklistedInOrder_None)
  then obtain item where item: "blacklistedInOrder d req = Some item" by blast
  from blacklistedInOrder_Some [OF item] obtain s where
    s: "item \<in> set (req_items req)" "s \<in> set (shops d)" "isBlackListed s"
       "shopId s = item_shopId item"
    by blast
  have "createOrderIntoDB env pay d req u =
          (Inl (ApiError 400
             (''Order cannot be placed as shop '' @ shopId s @ '' is blacklisted.'')), d)"
    by (simp add: createOrderIntoDB_def c item s)
  with s show ?thesis by blast
qed

text \<open>A run: the second of two line items references the blacklisted shop s2.\<close>

theorem createOrder_blacklisted_witness:
  "createOrderIntoDB ex_env ex_pay ex_db (ex_request [''s1'', ''s2'']) (ex_user ''ann@example.com'') =
     (Inl (ApiError 400 ''Order cannot be placed as shop s2 is blacklisted.''), ex_db)"
  using createOrder_blacklisted
    [of ex_db "ex_user ''ann@example.com''" "ex_request [''s1'', ''s2'']" ex_env ex_pay]
  by (simp add: ex_db_def ex_user_def ex_request_def ex_item_def ex_customer_def)

text \<open>
  Claim C1 as stated fails when the user has no customer record: the line item references
  the blacklisted shop s2, and the call returns code 404, not 400.
\<close>

theorem createOrder_blacklisted_counterexample:
  "item_shopId (ex_item ''s2'') \<in> set (blacklistedShopIds (ex_db\<lparr>customers := []\<rparr>)) \<and>
   createOrderIntoDB ex_env ex_pay (ex_db\<lparr>customers := []\<rparr>) (ex_request [''s2''])
       (ex_user ''ann@example.com'') =
     (Inl (ApiError 404 ''Customer not found for payment''), ex_db\<lparr>customers := []\<rparr>)"
  by (simp add: createOrderIntoDB_def customer_findUnique_def blacklistedShopIds_def
        ex_db_def ex_item_def)

subsection \<open>Status advancement\<close>

text \<open>
  Claim C2.  For an existing order, \<open>updateOrder\<close> returns the order with the next status
  of the sequence and stores it: PENDING becomes ONGOING, ONGOING becomes DELIVERED,
  DELIVERED stays DELIVERED.  Under repeated calls the rank of the stored status never
  decreases: after \<open>m\<close> calls and after any further \<open>n\<close> calls the order is still
  there, and its rank after \<open>m + n\<close> calls is at least its rank after \<open>m\<close>.
\<close>

theorem updateOrder_advances:
  assumes "order_findUnique d i = Some r"
  shows "(status r = ''PENDING'' \<longrightarrow>
            fst (updateOrder d i) = Inr (r\<lparr>status := ''ONGOING''\<rparr>) \<and>
            order_findUnique (snd (updateOrder d i)) i = Some (r\<lparr>status := ''ONGOING''\<rparr>))
       \<and> (status r = ''ONGOING'' \<longrightarrow>
            fst (updateOrder d i) = Inr (r\<lparr>status := ''DELIVERED''\<rparr>) \<and>
            order_findUnique (snd (updateOrder d i)) i = Some (r\<lparr>status := ''DELIVERED''\<rparr>))
       \<and> (status r = ''DELIVERED'' \<longrightarrow>
            fst (updateOrder d i) = Inr r \<and>
            order_findUnique (snd (updateOrder d i)) i = Some r)
       \<and> (\<forall>m n. \<exists>r1 r2.
            order_findUnique (updateOrder_times m d i) i = Some r1 \<and>
            order_findUnique (updateOrder_times (m + n) d i) i = Some r2 \<and>
            status_rank (status r1) \<le> status_rank (status r2))"
proof (intro conjI impI allI)
  assume s: "status r = ''PENDING''"
  then have t: "statusSequence (status r) = Some ''ONGOING''"
    by (simp add: statusSequence_PENDING)
  from updateOrder_found [OF assms t]
  show "fst (updateOrder d i) = Inr (r\<lparr>status := ''ONGOING''\<rparr>)"
    and "order_findUnique (snd (updateOrder d i)) i = Some (r\<lparr>status := ''ONGOING''\<rparr>)"
    by simp_all
next
  assume s: "status r = ''ONGOING''"
  then have t: "statusSequence (status r) = Some ''DELIVERED''"
    by (simp add: statusSequence_ONGOING)
  from updateOrder_found [OF assms t]
  show "fst (updateOrder d i) = Inr (r\<lparr>status := ''DELIVERED''\<rparr>)"
    and "order_findUnique (snd (updateOrder d i)) i = Some (r\<lparr>status := ''DELIVERED''\<rparr>)"
    by simp_all
next
  assume s: "status r = ''DELIVERED''"
  then have t: "statusSequence (status r) = Some ''DELIVERED''"
    by (simp add: statusSequence_DELIVERED)
  have e: "r\<lparr>status := ''DELIVERED''\<rparr> = r" using s by simp
  from updateOrder_found [OF assms t]
  show "fst (updateOrder d i) = Inr r"
    and "order_findUnique (snd (updateOrder d i)) i = Some r" by (simp_all add: e)
next
  fix m n
  from updateOrder_times_rank [OF assms, of m] obtain r1 where
    r1: "order_findUnique (updateOrder_times m d i) i = Some r1" by blast
  from updateOrder_times_rank [OF r1, of n] obtain r2 where
    "order_findUnique (updateOrder_times n (updateOrder_times m d i) i) i = Some r2"
    "status_rank (status r1) \<le> status_rank (status r2)" by blast
  with r1 show "\<exists>r1 r2.
            order_findUnique (updateOrder_times m d i) i = Some r1 \<and>
            order_findUnique (updateOrder_times (m + n) d i) i = Some r2 \<and>
            status_rank (status r1) \<le> status_rank (status r2)"
    by (auto simp: updateOrder_times_add)
qed

text \<open>A run on the pending order o1: one call makes it ONGOING.\<close>

theorem updateOrder_advances_witness:
  "order_findUnique ex_db ''o1'' = Some (ex_order ''o1'' ''c1'' ''PENDING'' 10) \<and>
   fst (updateOrder ex_db ''o1'') = Inr (ex_order ''o1'' ''c1'' ''ONGOING'' 10) \<and>
   order_findUnique (snd (updateOrder ex_db ''o1'')) ''o1'' =
     Some (ex_order ''o1'' ''c1'' ''ONGOING'' 10)"
proof -
  have f: "order_findUnique ex_db ''o1'' = Some (ex_order ''o1'' ''c1'' ''PENDING'' 10)"
    by (simp add: order_findUnique_def ex_db_def ex_order_def)
  have e: "(ex_order ''o1'' ''c1'' ''PENDING'' 10)\<lparr>status := ''ONGOING''\<rparr> =
           ex_order ''o1'' ''c1'' ''ONGOING'' 10"
    by (simp add: ex_order_def)
  have p: "status (ex_order ''o1'' ''c1'' ''PENDING'' 10) = ''PENDING''"
    by (simp add: ex_order_def)
  from updateOrder_advances [OF f] p e f show ?thesis by simp
qed

text \<open>
  Claim C3.  \<open>updateOrder\<close> fails exactly when no order has the id or the order's status
  is not a key of the transition table; every error it returns is a plain \<open>Error\<close> with
  a message and no status code, and the database is unchanged.
\<close>

theorem updateOrder_fails_iff:
  "(isl (fst (updateOrder d i)) \<longleftrightarrow>
      (order_findUnique d i = None \<or>
       (\<exists>r. order_findUnique d i = Some r \<and> status r \<notin> dom statusSequence)))
   \<and> (\<forall>e. fst (updateOrder d i) = Inl e \<longrightarrow>
         (\<exists>m. e = Error m) \<and> statusCode e = None \<and> snd (updateOrder d i) = d)"
  by (auto simp: updateOrder_def domIff split: option.splits)

text \<open>
  Two runs: an id that no order has, and an order whose status is outside the table, in
  a database whose schema has the further status CANCELLED.
\<close>

theorem updateOrder_fails_iff_witness:
  "updateOrder ex_db ''o9'' = (Inl (Error ''Order with ID o9 not found''), ex_db) \<and>
   updateOrder (ex_db\<lparr>schema := ex_schema\<lparr>more_ORDER_STATUS := [''CANCELLED'']\<rparr>,
                      orders := [ex_order ''o1'' ''c1'' ''CANCELLED'' 10]\<rparr>) ''o1'' =
     (Inl (Error ''Invalid current status: CANCELLED''),
      ex_db\<lparr>schema := ex_schema\<lparr>more_ORDER_STATUS := [''CANCELLED'']\<rparr>,
            orders := [ex_order ''o1'' ''c1'' ''CANCELLED'' 10]\<rparr>)"
  using updateOrder_fails_iff [of ex_db "''o9''"]
    updateOrder_fails_iff [of "ex_db\<lparr>schema := ex_schema\<lparr>more_ORDER_STATUS := [''CANCELLED'']\<rparr>,
                                   orders := [ex_order ''o1'' ''c1'' ''CANCELLED'' 10]\<rparr>" "''o1''"]
  by (simp add: updateOrder_def order_findUnique_def statusSequence_def ex_db_def ex_order_def)

subsection \<open>Order creation: the customer\<close>

text \<open>
  Claim C4.  When no customer record has the user's email, \<open>createOrderIntoDB\<close> returns
  \<open>ApiError 404\<close> with the message "Customer not found for payment" and the database
  is unchanged, whatever the request, the clock, the database defaults and the payment
  gateway are.
\<close>

theorem createOrder_missing_customer:
  assumes "\<forall>c \<in> set (customers d). email c \<noteq> userEmail u"
  shows "createOrderIntoDB env pay d req u =
           (Inl (ApiError 404 ''Customer not found for payment''), d)
         \<and> statusCode (ApiError 404 ''Customer not found for payment'') = Some 404"
proof -
  have "customer_findUnique d (userEmail u) = None"
    using assms by (simp add: customer_findUnique_None)
  then show ?thesis by (simp add: createOrderIntoDB_def)
qed

text \<open>A run: bob has no customer record.\<close>

theorem createOrder_missing_customer_witness:
  "createOrderIntoDB ex_env ex_pay ex_db (ex_request [''s1'']) (ex_user ''bob@example.com'') =
     (Inl (ApiError 404 ''Customer not found for payment''), ex_db)"
  using createOrder_missing_customer
    [of ex_db "ex_user ''bob@example.com''" ex_env ex_pay "ex_request [''s1'']"]
  by (simp add: ex_db_def ex_user_def ex_customer_def)

subsection \<open>Order creation: success\<close>

lemma digit_nth: "d < 10 \<Longrightarrow> ''0123456789'' ! d \<in> set ''0123456789''"
  by (rule nth_mem) simp

lemma show_nat_digits: "show_nat n \<noteq> [] \<and> set (show_nat n) \<subseteq> set ''0123456789''"
proof (induction n rule: show_nat.induct)
  case (1 n)
  show ?case
  proof (cases "n < 10")
    case True
    with digit_nth [of n] show ?thesis by (subst (1 2) show_nat.simps) simp
  next
    case False
    have "n mod 10 < 10" by simp
    from digit_nth [OF this] "1" False show ?thesis
      by (subst (1 2) show_nat.simps) simp
  qed
qed

lemma show_nat_ex1: "show_nat 1730000000000 = ''1730000000000''"
  by (simp add: show_nat.simps)

lemma show_nat_ex2: "show_nat 4711 = ''4711''"
  by (simp add: show_nat.simps)

lemma digit_value_nth: "k < 10 \<Longrightarrow> digit_value (''0123456789'' ! k) = k"
proof -
  assume "k < 10"
  then have "k \<in> {0, 1, 2, 3, 4, 5, 6, 7, 8, 9}" by auto
  then show ?thesis by (auto simp: digit_value_def)
qed

lemma read_nat_snoc: "read_nat (s @ [c]) = 10 * read_nat s + digit_value c"
  by (simp add: read_nat_def)

lemma read_show_nat: "read_nat (show_nat n) = n"
proof (induction n rule: show_nat.induct)
  case (1 n)
  show ?case
  proof (cases "n < 10")
    case True
    then show ?thesis
      by (subst show_nat.simps) (simp add: read_nat_def digit_value_nth)
  next
    case False
    have "n mod 10 < 10" by simp
    with "1" False show ?thesis
      by (subst show_nat.simps) (simp add: read_nat_snoc digit_value_nth)
  qed
qed

text \<open>
  Claim C7.  When \<open>createOrderIntoDB\<close> returns a value \<open>r\<close> and the database \<open>d'\<close>: the
  user has a customer record \<open>c\<close> and no line item is blacklisted.  The columns of \<open>r\<close>
  are the request's coupon, subtotal, total and discounts, the customer's id, the
  payment status PENDING, the transaction id and the columns the database fills in.
  The transaction id is "TXN-", the decimal digits of the clock, "-" and the decimal
  digits of the random number.  \<open>d'\<close> is \<open>d\<close> with exactly this order appended and, for
  every line item of the request in order, one item row with the line item's six fields
  and the new order's id.  \<open>payLink r\<close> is the link that payment initiation returned
  for the order's subtotal, transaction id, customer and id.
\<close>

theorem createOrder_success:
  assumes "createOrderIntoDB env pay d req u = (Inr r, d')"
  shows "\<exists>c. customer_findUnique d (userEmail u) = Some c
     \<and> blacklistedInOrder d req = None
     \<and> order.truncate r =
         \<lparr> order_id = new_id env, couponId = req_couponId req, subTotal = req_subTotal req,
           order_total = req_total req, discounts = req_discounts req,
           order_customerId = customerId c,
           transactionId = ''TXN-'' @ show_nat (date_now env) @ ''-'' @ show_nat (random_num env),
           paymentStatus = ''PENDING'', status = new_status env,
           createdAt = new_createdAt env \<rparr>
     \<and> d' = d\<lparr> orders := orders d @ [order.truncate r],
               orderItems := orderItems d @
                 map (\<lambda>item. \<lparr> item_shopId = item_shopId item, productId = productId item,
                               item_size = item_size item, quantity = quantity item,
                               price = price item, discount = discount item,
                               item_orderId = new_id env \<rparr>)
                   (req_items req) \<rparr>
     \<and> read_nat (show_nat (date_now env)) = date_now env
     \<and> read_nat (show_nat (random_num env)) = random_num env
     \<and> show_nat (date_now env) \<noteq> [] \<and> set (show_nat (date_now env)) \<subseteq> set ''0123456789''
     \<and> show_nat (random_num env) \<noteq> [] \<and> set (show_nat (random_num env)) \<subseteq> set ''0123456789''
     \<and> pay \<lparr> orderData = req_subTotal req,
              txn = ''TXN-'' @ show_nat (date_now env) @ ''-'' @ show_nat (random_num env),
              customerData = c, orderId = new_id env \<rparr> = Inr (payLink r)"
proof -
  from assms obtain c where c: "customer_findUnique d (userEmail u) = Some c"
    by (cases "customer_findUnique d (userEmail u)") (auto simp: createOrderIntoDB_def)
  from assms c have b: "blacklistedInOrder d req = None"
    by (cases "blacklistedInOrder d req") (auto simp: createOrderIntoDB_def)
  from assms c b have i: "insert_error env = None"
    by (cases "insert_error env") (auto simp: createOrderIntoDB_def order_create_def)
  let ?row = "new_order env req c"
  let ?q = "\<lparr> orderData = subTotal ?row, txn = transactionId ?row, customerData = c,
              orderId = order_id ?row \<rparr>"
  from assms c b i obtain url where url: "pay ?q = Inr url"
    by (cases "pay ?q") (auto simp: createOrderIntoDB_def order_create_def)
  from assms c b i url have r: "r = order.extend ?row (created_order.fields url)"
    and d': "d' = d\<lparr> orders := orders d @ [?row],
               orderItems := orderItems d @ map (new_item (order_id ?row)) (req_items req) \<rparr>"
    by (auto simp: createOrderIntoDB_def order_create_def)
  have t: "order.truncate r = ?row"
    by (simp add: r order.truncate_def order.extend_def new_order_def)
  have l: "payLink r = url"
    by (simp add: r order.extend_def created_order.fields_def new_order_def)
  have n: "new_item (new_id env) =
             (\<lambda>item. \<lparr> item_shopId = item_shopId item, productId = productId item,
                         item_size = item_size item, quantity = quantity item,
                         price = price item, discount = discount item,
                         item_orderId = new_id env \<rparr>)"
    by (rule ext) (simp add: new_item_def)
  have d'': "d' = d\<lparr> orders := orders d @ [order.truncate r],
               orderItems := orderItems d @
                 map (\<lambda>item. \<lparr> item_shopId = item_shopId item, productId = productId item,
                               item_size = item_size item, quantity = quantity item,
                               price = price item, discount = discount item,
                               item_orderId = new_id env \<rparr>)
                   (req_items req) \<rparr>"
    unfolding t using d' by (simp add: new_order_def n)
  have q: "pay \<lparr> orderData = req_subTotal req,
              txn = ''TXN-'' @ show_nat (date_now env) @ ''-'' @ show_nat (random_num env),
              customerData = c, orderId = new_id env \<rparr> = Inr (payLink r)"
    using url l by (simp add: new_order_def generateTransactionId_def)
  have row: "order.truncate r =
         \<lparr> order_id = new_id env, couponId = req_couponId req, subTotal = req_subTotal req,
           order_total = req_total req, discounts = req_discounts req,
           order_customerId = customerId c,
           transactionId = ''TXN-'' @ show_nat (date_now env) @ ''-'' @ show_nat (random_num env),
           paymentStatus = ''PENDING'', status = new_status env,
           createdAt = new_createdAt env \<rparr>"
    unfolding t by (simp add: new_order_def generateTransactionId_def)
  from c b row d'' q read_show_nat [of "date_now env"] read_show_nat [of "random_num env"]
    show_nat_digits [of "date_now env"] show_nat_digits [of "random_num env"]
  show ?thesis by blast
qed

text \<open>A run: ann orders one item of the shop s1, which is not blacklisted.\<close>

theorem createOrder_success_witness:
  "createOrderIntoDB ex_env ex_pay ex_db (ex_request [''s1'']) (ex_user ''ann@example.com'') =
     (Inr \<lparr> order_id = ''o4'', couponId = None, subTotal = 1000, order_total = 1000,
            discounts = 0, order_customerId = ''c1'',
            transactionId = ''TXN-1730000000000-4711'', paymentStatus = ''PENDING'',
            status = ''PENDING'', createdAt = 40,
            payLink = ''https://pay.example/TXN-1730000000000-4711'' \<rparr>,
      ex_db\<lparr> orders := orders ex_db @
                 [\<lparr> order_id = ''o4'', couponId = None, subTotal = 1000, order_total = 1000,
                    discounts = 0, order_customerId = ''c1'',
                    transactionId = ''TXN-1730000000000-4711'', paymentStatus = ''PENDING'',
                    status = ''PENDING'', createdAt = 40 \<rparr>],
             orderItems := orderItems ex_db @
                 [\<lparr> item_shopId = ''s1'', productId = ''p1'', item_size = ''M'', quantity = 2,
                    price = 500, discount = 0, item_orderId = ''o4'' \<rparr>] \<rparr>)"
proof -
  have run: "createOrderIntoDB ex_env ex_pay ex_db (ex_request [''s1'']) (ex_user ''ann@example.com'') =
     (Inr \<lparr> order_id = ''o4'', couponId = None, subTotal = 1000, order_total = 1000,
            discounts = 0, order_customerId = ''c1'',
            transactionId = ''TXN-1730000000000-4711'', paymentStatus = ''PENDING'',
            status = ''PENDING'', createdAt = 40,
            payLink = ''https://pay.example/TXN-1730000000000-4711'' \<rparr>,
      ex_db\<lparr> orders := orders ex_db @
                 [\<lparr> order_id = ''o4'', couponId = None, subTotal = 1000, order_total = 1000,
                    discounts = 0, order_customerId = ''c1'',
                    transactionId = ''TXN-1730000000000-4711'', paymentStatus = ''PENDING'',
                    status = ''PENDING'', createdAt = 40 \<rparr>],
             orderItems := orderItems ex_db @
                 [\<lparr> item_shopId = ''s1'', productId = ''p1'', item_size = ''M'', quantity = 2,
                    price = 500, discount = 0, item_orderId = ''o4'' \<rparr>] \<rparr>)"
    by (simp add: createOrderIntoDB_def customer_findUnique_def blacklistedInOrder_def
          blacklistedShopIds_def order_create_def new_order_def generateTransactionId_def
          show_nat_ex1 show_nat_ex2 ex_env_def ex_pay_def ex_db_def ex_request_def ex_user_def
          ex_item_def ex_customer_def new_item_def order.extend_def created_order.fields_def)
  from createOrder_success [OF run] run show ?thesis by simp
qed

subsection \<open>Queries: helper facts\<close>


lemma nat_ceil_div:
  assumes "0 < l"
  shows "int ((t + l - 1) div l) = \<lceil>real t / real l\<rceil>"
proof -
  define k where "k = (t + l - 1) div l"
  have 1: "k * l \<le> t + l - 1" unfolding k_def by simp
  have "k * l + (t + l - 1) mod l = t + l - 1" unfolding k_def by simp
  moreover have "(t + l - 1) mod l < l" using assms by simp
  ultimately have 2: "t + l - 1 < k * l + l" by linarith
  from 2 assms have "t \<le> k * l" by simp
  then have a: "real t \<le> real k * real l"
    by (metis of_nat_le_iff of_nat_mult)
  from 1 assms have "k * l < t + l" by simp
  then have b: "real k * real l < real t + real l"
    by (metis of_nat_less_iff of_nat_mult of_nat_add)
  have "real t / real l \<le> real k" using a assms by (simp add: divide_le_eq)
  moreover have "real k - 1 < real t / real l"
    using b assms by (simp add: less_divide_eq algebra_simps)
  ultimately have "\<lceil>real t / real l\<rceil> = int k"
    by (simp add: ceiling_eq_iff)
  then show ?thesis by (simp add: k_def)
qed

lemma Math_ceil_div_ceiling:
  "0 < l \<Longrightarrow> Math_ceil_div t l = Finite \<lceil>real t / real l\<rceil>"
  using nat_ceil_div [of l t] by (simp add: Math_ceil_div_def)

lemma mset_insert_by: "mset (insert_by le x xs) = add_mset x (mset xs)"
  by (induction xs) auto

lemma mset_sort_by: "mset (sort_by le xs) = mset xs"
  by (induction xs) (auto simp: mset_insert_by)

lemma mset_order_rows: "mset (order_rows ob rs) = mset rs"
  by (auto simp: order_rows_def mset_sort_by split: option.splits)

lemma set_order_rows: "set (order_rows ob rs) = set rs"
  by (metis mset_order_rows set_mset_mset)

lemma length_order_rows: "length (order_rows ob rs) = length rs"
  by (metis mset_order_rows size_mset)

lemma row_order_include: "map row_order (map (include_items d) rs) = rs"
  by (induction rs) (simp_all add: include_items_def)

lemma order_findMany_Inr:
  assumes "order_findMany d a = Inr rows"
  shows "where_option_valid d (fa_where a)" and "orderBy_valid (fa_orderBy a)"
    and "map row_order rows =
           take (fa_take a) (drop (fa_skip a) (order_rows (fa_orderBy a) (matching d (fa_where a))))"
proof -
  from assms have v: "where_option_valid d (fa_where a) \<and> orderBy_valid (fa_orderBy a)"
    by (auto simp: order_findMany_def split: if_splits)
  then show "where_option_valid d (fa_where a)" and "orderBy_valid (fa_orderBy a)" by simp_all
  from assms v have "rows = map (include_items d)
      (take (fa_take a) (drop (fa_skip a) (order_rows (fa_orderBy a) (matching d (fa_where a)))))"
    by (simp add: order_findMany_def)
  then show "map row_order rows =
           take (fa_take a) (drop (fa_skip a) (order_rows (fa_orderBy a) (matching d (fa_where a))))"
    by (simp only: row_order_include)
qed

lemma order_findMany_Inl: "order_findMany d a = Inl e \<Longrightarrow> e = PrismaValidationError"
  by (auto simp: order_findMany_def split: if_splits)

lemma order_findMany_valid:
  assumes "where_option_valid d (fa_where a)" and "orderBy_valid (fa_orderBy a)"
  shows "\<exists>rows. order_findMany d a = Inr rows"
  using assms by (simp add: order_findMany_def)

lemma orderBy_default_valid: "orderBy_valid (''createdAt'', Some ''desc'')"
  by (simp add: orderBy_valid_def order_columns_def)

lemma orderBy_of_None: "orderBy_of None = (''createdAt'', Some ''desc'')"
  by (simp add: orderBy_of_def)

subsection \<open>The pending listing\<close>

text \<open>
  Claim C6.  Whenever the ordering validates (as it does when no sort is given),
  \<open>getPendingOrder\<close> returns an envelope: its data is the page (skip, then limit) of a
  reordering of exactly the orders whose status is not DELIVERED, its total is the number
  of these orders, page and limit are the pagination helper's, and totalPage is
  \<^verbatim>\<open>Math.ceil(total / limit)\<close>, the ceiling of the quotient when the limit is positive.
\<close>

theorem getPendingOrder_envelope:
  assumes c: "calc p = (pg, lmt, skp)" and v: "orderBy_valid (orderBy_of (opt_sort p))"
  shows "\<exists>env sorted.
           getPendingOrder calc d p = Inr env
         \<and> mset sorted = mset (filter (\<lambda>r. status r \<noteq> ''DELIVERED'') (orders d))
         \<and> map row_order (data env) = take lmt (drop skp sorted)
         \<and> total (meta env) = length (filter (\<lambda>r. status r \<noteq> ''DELIVERED'') (orders d))
         \<and> page (meta env) = pg \<and> limit (meta env) = lmt
         \<and> totalPage (meta env) = Math_ceil_div (total (meta env)) lmt
         \<and> (0 < lmt \<longrightarrow> totalPage (meta env) = Finite \<lceil>real (total (meta env)) / real lmt\<rceil>)"
proof -
  let ?a = "\<lparr> fa_where = Some (StatusNot ''DELIVERED''), fa_skip = skp, fa_take = lmt,
              fa_orderBy = orderBy_of (opt_sort p) \<rparr>"
  let ?pending = "filter (\<lambda>r. status r \<noteq> ''DELIVERED'') (orders d)"
  have "where_holds d (StatusNot ''DELIVERED'') = (\<lambda>r. status r \<noteq> ''DELIVERED'')"
    by (rule ext) simp
  then have m: "matching d (Some (StatusNot ''DELIVERED'')) = ?pending"
    by (simp add: matching_def)
  have wv: "where_option_valid d (Some (StatusNot ''DELIVERED''))"
    by (simp add: where_option_valid_def ORDER_STATUS_def)
  from v wv obtain rows where rows: "order_findMany d ?a = Inr rows"
    using order_findMany_valid [of d ?a] by auto
  have cnt: "order_count d (Some (StatusNot ''DELIVERED'')) = Inr (length ?pending)"
    by (simp add: order_count_def wv m)
  have res: "getPendingOrder calc d p = Inr (envelope_of pg lmt (length ?pending) rows)"
    by (simp add: getPendingOrder_def c rows cnt)
  have pagex: "map row_order rows =
                 take lmt (drop skp (order_rows (orderBy_of (opt_sort p)) ?pending))"
    using order_findMany_Inr(3) [OF rows] by (simp add: m)
  show ?thesis
    using res pagex mset_order_rows [of "orderBy_of (opt_sort p)" ?pending]
      Math_ceil_div_ceiling [of lmt "length ?pending"]
    by (auto simp: envelope_of_def)
qed

lemma ex_calc_default: "ex_calc (ex_options srt) = (1, 10, 0)"
  by (simp add: ex_calc_def ex_options_def)

lemma opt_sort_ex_options: "opt_sort (ex_options srt) = srt"
  by (simp add: ex_options_def)

lemma createdAt_column:
  "map_of order_columns ''createdAt'' = Some (DateColumn, \<lambda>r. JDate (createdAt r))"
  by (simp add: order_columns_def)

lemma order_rows_default:
  "order_rows (''createdAt'', Some ''desc'') rs = sort_by (\<lambda>a b. createdAt b \<le> createdAt a) rs"
  by (simp add: order_rows_def createdAt_column)

text \<open>A run: of the three orders, o3 and o1 are not delivered; the newest comes first.\<close>

theorem getPendingOrder_envelope_witness:
  "getPendingOrder ex_calc ex_db (ex_options None) =
     Inr \<lparr> meta = \<lparr> page = 1, limit = 10, total = 2, totalPage = Finite 1 \<rparr>,
           data = [include_items ex_db (ex_order ''o3'' ''c1'' ''ONGOING'' 30),
                   include_items ex_db (ex_order ''o1'' ''c1'' ''PENDING'' 10)] \<rparr>"
proof -
  have v: "orderBy_valid (orderBy_of (opt_sort (ex_options None)))"
    by (simp add: opt_sort_ex_options orderBy_of_None orderBy_default_valid)
  have run: "getPendingOrder ex_calc ex_db (ex_options None) =
     Inr \<lparr> meta = \<lparr> page = 1, limit = 10, total = 2, totalPage = Finite 1 \<rparr>,
           data = [include_items ex_db (ex_order ''o3'' ''c1'' ''ONGOING'' 30),
                   include_items ex_db (ex_order ''o1'' ''c1'' ''PENDING'' 10)] \<rparr>"
    by (simp add: getPendingOrder_def ex_calc_default order_findMany_def order_count_def
          where_option_valid_def matching_def envelope_of_def Math_ceil_div_def
          ORDER_STATUS_def ex_schema_def
          orderBy_of_None orderBy_default_valid order_rows_default
          opt_sort_ex_options ex_db_def ex_order_def)
  from getPendingOrder_envelope [where calc = ex_calc and p = "ex_options None" and d = ex_db,
      OF ex_calc_default v] run
  show ?thesis by simp
qed

subsection \<open>The customer listing: totals\<close>

lemma order_count_None: "order_count d None = Inr (length (orders d))"
  by (simp add: order_count_def where_option_valid_def matching_def)

text \<open>
  Claim C5.  In an envelope that \<open>getSingleCustomerAllOrder\<close> returns, the total is the
  number of all orders in the database and totalPage is \<^verbatim>\<open>Math.ceil(total / limit)\<close> of
  this number (the ceiling of the quotient when the limit is positive), while the data
  is a page of a reordering of the orders that match the where-condition.
\<close>

theorem customer_listing_total:
  assumes c: "calc p = (pg, lmt, skp)"
    and r: "getSingleCustomerAllOrder calc d u p ps = Inr env"
  shows "total (meta env) = length (orders d)
       \<and> totalPage (meta env) = Math_ceil_div (length (orders d)) lmt
       \<and> (0 < lmt \<longrightarrow> totalPage (meta env) = Finite \<lceil>real (length (orders d)) / real lmt\<rceil>)
       \<and> (\<exists>sorted.
             mset sorted =
               mset (filter (where_holds d (whereConditons_customer d u ps)) (orders d))
           \<and> map row_order (data env) = take lmt (drop skp sorted))"
proof -
  let ?a = "\<lparr> fa_where = Some (whereConditons_customer d u ps), fa_skip = skp, fa_take = lmt,
              fa_orderBy = orderBy_of (opt_sort p) \<rparr>"
  let ?m = "filter (where_holds d (whereConditons_customer d u ps)) (orders d)"
  from r c obtain rows where rows: "order_findMany d ?a = Inr rows"
    by (cases "order_findMany d ?a") (auto simp: getSingleCustomerAllOrder_def)
  from r c rows have env: "env = envelope_of pg lmt (length (orders d)) rows"
    by (simp add: getSingleCustomerAllOrder_def order_count_None)
  have pagex: "map row_order rows = take lmt (drop skp (order_rows (orderBy_of (opt_sort p)) ?m))"
    using order_findMany_Inr(3) [OF rows] by (simp add: matching_def)
  show ?thesis
    using env pagex mset_order_rows [of "orderBy_of (opt_sort p)" ?m]
      Math_ceil_div_ceiling [of lmt "length (orders d)"]
    by (auto simp: envelope_of_def)
qed

lemma ex_customer_found: "customer_findUnique ex_db ''ann@example.com'' = Some ex_customer"
  by (simp add: customer_findUnique_def ex_db_def ex_customer_def)

lemma ex_customer_missing: "customer_findUnique ex_db ''bob@example.com'' = None"
  by (simp add: customer_findUnique_def ex_db_def ex_customer_def)

lemma userEmail_ex_user: "userEmail (ex_user e) = e"
  by (simp add: ex_user_def)

text \<open>
  A run: ann has two of the three orders; the envelope holds her two orders and the
  total 3.
\<close>

theorem customer_listing_total_witness:
  "getSingleCustomerAllOrder ex_calc ex_db (ex_user ''ann@example.com'') (ex_options None) [] =
     Inr \<lparr> meta = \<lparr> page = 1, limit = 10, total = 3, totalPage = Finite 1 \<rparr>,
           data = [include_items ex_db (ex_order ''o3'' ''c1'' ''ONGOING'' 30),
                   include_items ex_db (ex_order ''o1'' ''c1'' ''PENDING'' 10)] \<rparr>
   \<and> length (filter (where_holds ex_db
         (whereConditons_customer ex_db (ex_user ''ann@example.com'') [])) (orders ex_db)) = 2"
proof -
  have w: "whereConditons_customer ex_db (ex_user ''ann@example.com'') [] =
             AND [AND [CustomerIdIs (Some ''c1'')]]"
    by (simp add: whereConditons_customer_def andCondtion_filters_def filterData_def
          userEmail_ex_user ex_customer_found ex_customer_def)
  have run: "getSingleCustomerAllOrder ex_calc ex_db (ex_user ''ann@example.com'') (ex_options None) [] =
     Inr \<lparr> meta = \<lparr> page = 1, limit = 10, total = 3, totalPage = Finite 1 \<rparr>,
           data = [include_items ex_db (ex_order ''o3'' ''c1'' ''ONGOING'' 30),
                   include_items ex_db (ex_order ''o1'' ''c1'' ''PENDING'' 10)] \<rparr>"
    unfolding getSingleCustomerAllOrder_def w
    by (simp add: ex_calc_default order_findMany_def order_count_def
          where_option_valid_def matching_def envelope_of_def Math_ceil_div_def
          ORDER_STATUS_def ex_schema_def
          orderBy_of_None orderBy_default_valid order_rows_default
          opt_sort_ex_options ex_db_def ex_order_def)
  have n: "length (filter (where_holds ex_db (AND [AND [CustomerIdIs (Some ''c1'')]])) (orders ex_db)) = 2"
    by (simp add: ex_db_def ex_order_def)
  from customer_listing_total [where calc = ex_calc and p = "ex_options None", OF ex_calc_default run]
    run n w
  show ?thesis by simp
qed

subsection \<open>Filters and ordering of the customer and vendor listings\<close>

lemma set_filterData: "set (filterData ps) = {kv \<in> set ps. fst kv \<noteq> ''searchTerm''}"
  by (auto simp: filterData_def)

lemma distinct_filterData: "distinct (map fst ps) \<Longrightarrow> distinct (map fst (filterData ps))"
  by (simp add: filterData_def distinct_map_filter)

lemma get_prop_member:
  "distinct (map fst fd) \<Longrightarrow> (k, v) \<in> set fd \<Longrightarrow> get_prop fd k = v"
  by (simp add: get_prop_def)

lemma set_equality_conjuncts:
  assumes "distinct (map fst fd)"
  shows "set (equality_conjuncts fd) = {Equals k v |k v. (k, v) \<in> set fd \<and> Boolean v}"
proof (intro set_eqI iffI)
  fix w assume "w \<in> set (equality_conjuncts fd)"
  then obtain k where k: "k \<in> fst ` set fd" "Boolean (get_prop fd k)" "w = Equals k (get_prop fd k)"
    by (auto simp: equality_conjuncts_def)
  from k(1) obtain v where v: "(k, v) \<in> set fd" by auto
  with assms have "get_prop fd k = v" by (rule get_prop_member)
  with k v show "w \<in> {Equals k v |k v. (k, v) \<in> set fd \<and> Boolean v}" by auto
next
  fix w assume "w \<in> {Equals k v |k v. (k, v) \<in> set fd \<and> Boolean v}"
  then obtain k v where kv: "w = Equals k v" "(k, v) \<in> set fd" "Boolean v" by auto
  from assms kv(2) have g: "get_prop fd k = v" by (rule get_prop_member)
  from kv(2) have "k \<in> fst ` set fd" by force
  with kv g show "w \<in> set (equality_conjuncts fd)"
    by (auto simp: equality_conjuncts_def)
qed

lemma equality_conjuncts_Nil: "equality_conjuncts [] = []"
  by (simp add: equality_conjuncts_def)

lemma where_holds_filters:
  "list_all (\<lambda>w. where_holds d w r) (andCondtion_filters ps) \<longleftrightarrow>
     (\<forall>w \<in> set (equality_conjuncts (filterData ps)). where_holds d w r)"
  by (cases "filterData ps") (simp_all add: andCondtion_filters_def equality_conjuncts_Nil list_all_iff)

lemma where_holds_customer:
  "where_holds d (whereConditons_customer d u ps) r \<longleftrightarrow>
     (\<forall>w \<in> set (equality_conjuncts (filterData ps)). where_holds d w r) \<and>
     where_holds d (CustomerIdIs (map_option customerId (customer_findUnique d (userEmail u)))) r"
  by (simp add: whereConditons_customer_def where_holds_filters)

lemma where_holds_shop:
  "where_holds d (whereConditons_shop v ps) r \<longleftrightarrow>
     (\<forall>w \<in> set (equality_conjuncts (filterData ps)). where_holds d w r) \<and>
     where_holds d (ItemsSomeShopVendor (vendorId v)) r"
  by (simp add: whereConditons_shop_def where_holds_filters)

lemma split_on_absent: "c \<notin> set xs \<Longrightarrow> split_on c xs = [xs]"
  by (induction xs) auto

lemma split_on_first: "c \<notin> set f \<Longrightarrow> split_on c (f @ c # rest) = f # split_on c rest"
  by (induction f) auto

lemma orderBy_of_field_direction:
  assumes "CHR ''-'' \<notin> set f" and "CHR ''-'' \<notin> set dir"
  shows "orderBy_of (Some (f @ ''-'' @ dir)) = (f, Some dir)"
proof -
  have "split_on CHR ''-'' (f @ CHR ''-'' # dir) = [f, dir]"
    using assms by (simp add: split_on_first split_on_absent)
  then show ?thesis by (simp add: orderBy_of_def)
qed

lemma customer_listing_page:
  assumes c: "calc p = (pg, lmt, skp)"
    and r: "getSingleCustomerAllOrder calc d u p ps = Inr env"
  shows "map row_order (data env) =
           take lmt (drop skp (order_rows (orderBy_of (opt_sort p))
             (filter (where_holds d (whereConditons_customer d u ps)) (orders d))))"
proof -
  let ?a = "\<lparr> fa_where = Some (whereConditons_customer d u ps), fa_skip = skp, fa_take = lmt,
              fa_orderBy = orderBy_of (opt_sort p) \<rparr>"
  from r c obtain rows where rows: "order_findMany d ?a = Inr rows"
    by (cases "order_findMany d ?a") (auto simp: getSingleCustomerAllOrder_def)
  from r c rows have env: "env = envelope_of pg lmt (length (orders d)) rows"
    by (simp add: getSingleCustomerAllOrder_def order_count_None)
  show ?thesis
    using order_findMany_Inr(3) [OF rows] by (simp add: matching_def env envelope_of_def)
qed

lemma shop_listing_page:
  assumes c: "calc p = (pg, lmt, skp)"
    and r: "getSpecificShopOrder calc d u p ps = Inr env"
  shows "\<exists>v. vendor_findUniqueOrThrow d (userEmail u) = Inr v \<and>
           map row_order (data env) =
             take lmt (drop skp (order_rows (orderBy_of (opt_sort p))
               (filter (where_holds d (whereConditons_shop v ps)) (orders d)))) \<and>
           total (meta env) = length (filter (where_holds d (whereConditons_shop v ps)) (orders d))"
proof -
  from r obtain v where v: "vendor_findUniqueOrThrow d (userEmail u) = Inr v"
    by (cases "vendor_findUniqueOrThrow d (userEmail u)") (auto simp: getSpecificShopOrder_def)
  let ?a = "\<lparr> fa_where = Some (whereConditons_shop v ps), fa_skip = skp, fa_take = lmt,
              fa_orderBy = orderBy_of (opt_sort p) \<rparr>"
  from r c v obtain rows where rows: "order_findMany d ?a = Inr rows"
    by (cases "order_findMany d ?a") (auto simp: getSpecificShopOrder_def)
  from order_findMany_Inr(1) [OF rows]
  have cnt: "order_count d (Some (whereConditons_shop v ps)) =
               Inr (length (filter (where_holds d (whereConditons_shop v ps)) (orders d)))"
    by (simp add: order_count_def matching_def)
  from r c v rows cnt have env: "env = envelope_of pg lmt
        (length (filter (where_holds d (whereConditons_shop v ps)) (orders d))) rows"
    by (simp add: getSpecificShopOrder_def)
  show ?thesis
    using v order_findMany_Inr(3) [OF rows] by (simp add: matching_def env envelope_of_def)
qed

lemma truthy_params:
  assumes "distinct (map fst ps)"
  shows "set (equality_conjuncts (filterData ps)) =
           {Equals k v |k v. (k, v) \<in> set ps \<and> k \<noteq> ''searchTerm'' \<and> Boolean v}"
  using set_equality_conjuncts [OF distinct_filterData [OF assms]]
  by (auto simp: set_filterData)

text \<open>
  Claim C8, as the code has it.  For query parameters with distinct names: the equality
  conjuncts are exactly \<open>Equals k v\<close> for the parameters \<open>(k, v)\<close> other than
  \<^verbatim>\<open>searchTerm\<close> whose value is truthy; the where-condition of the customer and of the
  vendor listing holds for an order exactly when each of these equalities and the
  ownership condition hold; the rows a listing returns are the page of the matching
  orders arranged by \<open>orderBy_of\<close> of the sort option; with no sort this is createdAt
  descending, and a sort "field-direction" gives that field and that direction.
\<close>

theorem listing_filter_and_sort:
  assumes dk: "distinct (map fst ps)" and c: "calc p = (pg, lmt, skp)"
  shows "set (equality_conjuncts (filterData ps)) =
           {Equals k v |k v. (k, v) \<in> set ps \<and> k \<noteq> ''searchTerm'' \<and> Boolean v}
     \<and> (\<forall>r. where_holds d (whereConditons_customer d u ps) r \<longleftrightarrow>
           (\<forall>k v. (k, v) \<in> set ps \<and> k \<noteq> ''searchTerm'' \<and> Boolean v \<longrightarrow>
                  where_holds d (Equals k v) r) \<and>
           where_holds d
             (CustomerIdIs (map_option customerId (customer_findUnique d (userEmail u)))) r)
     \<and> (\<forall>r vd. where_holds d (whereConditons_shop vd ps) r \<longleftrightarrow>
           (\<forall>k v. (k, v) \<in> set ps \<and> k \<noteq> ''searchTerm'' \<and> Boolean v \<longrightarrow>
                  where_holds d (Equals k v) r) \<and>
           where_holds d (ItemsSomeShopVendor (vendorId vd)) r)
     \<and> (\<forall>env. getSingleCustomerAllOrder calc d u p ps = Inr env \<longrightarrow>
           map row_order (data env) =
             take lmt (drop skp (order_rows (orderBy_of (opt_sort p))
               (filter (where_holds d (whereConditons_customer d u ps)) (orders d)))))
     \<and> (\<forall>env. getSpecificShopOrder calc d u p ps = Inr env \<longrightarrow>
           (\<exists>vd. vendor_findUniqueOrThrow d (userEmail u) = Inr vd \<and>
              map row_order (data env) =
                take lmt (drop skp (order_rows (orderBy_of (opt_sort p))
                  (filter (where_holds d (whereConditons_shop vd ps)) (orders d))))))
     \<and> orderBy_of None = (''createdAt'', Some ''desc'')
     \<and> (\<forall>f dir. CHR ''-'' \<notin> set f \<and> CHR ''-'' \<notin> set dir \<longrightarrow>
           orderBy_of (Some (f @ ''-'' @ dir)) = (f, Some dir))"
proof -
  note tp = truthy_params [OF dk]
  have 1: "\<And>r. (\<forall>w \<in> set (equality_conjuncts (filterData ps)). where_holds d w r) \<longleftrightarrow>
            (\<forall>k v. (k, v) \<in> set ps \<and> k \<noteq> ''searchTerm'' \<and> Boolean v \<longrightarrow>
                  where_holds d (Equals k v) r)"
    unfolding tp by blast
  have 2: "\<forall>env. getSpecificShopOrder calc d u p ps = Inr env \<longrightarrow>
           (\<exists>vd. vendor_findUniqueOrThrow d (userEmail u) = Inr vd \<and>
              map row_order (data env) =
                take lmt (drop skp (order_rows (orderBy_of (opt_sort p))
                  (filter (where_holds d (whereConditons_shop vd ps)) (orders d)))))"
    using shop_listing_page [where calc = calc and p = p, OF c] by blast
  have 3: "\<forall>env. getSingleCustomerAllOrder calc d u p ps = Inr env \<longrightarrow>
           map row_order (data env) =
             take lmt (drop skp (order_rows (orderBy_of (opt_sort p))
               (filter (where_holds d (whereConditons_customer d u ps)) (orders d))))"
    using customer_listing_page [where calc = calc and p = p, OF c] by blast
  have 4: "\<forall>f dir. CHR ''-'' \<notin> set f \<and> CHR ''-'' \<notin> set dir \<longrightarrow>
           orderBy_of (Some (f @ ''-'' @ dir)) = (f, Some dir)"
    using orderBy_of_field_direction by blast
  have 5: "\<forall>r. where_holds d (whereConditons_customer d u ps) r \<longleftrightarrow>
           (\<forall>k v. (k, v) \<in> set ps \<and> k \<noteq> ''searchTerm'' \<and> Boolean v \<longrightarrow>
                  where_holds d (Equals k v) r) \<and>
           where_holds d
             (CustomerIdIs (map_option customerId (customer_findUnique d (userEmail u)))) r"
    unfolding where_holds_customer 1 by simp
  have 6: "\<forall>r vd. where_holds d (whereConditons_shop vd ps) r \<longleftrightarrow>
           (\<forall>k v. (k, v) \<in> set ps \<and> k \<noteq> ''searchTerm'' \<and> Boolean v \<longrightarrow>
                  where_holds d (Equals k v) r) \<and>
           where_holds d (ItemsSomeShopVendor (vendorId vd)) r"
    unfolding where_holds_shop 1 by simp
  from tp 5 6 3 2 orderBy_of_None 4 show ?thesis
    by (intro conjI)
qed

lemma ex_params_conjuncts:
  "equality_conjuncts (filterData ex_params) = [Equals ''status'' (JStr ''PENDING'')]"
  by (simp add: equality_conjuncts_def filterData_def get_prop_def ex_params_def)

lemma ex_params_filters:
  "andCondtion_filters ex_params = [AND [Equals ''status'' (JStr ''PENDING'')]]"
  by (simp add: andCondtion_filters_def ex_params_conjuncts) (simp add: filterData_def ex_params_def)

lemma status_column:
  "map_of order_columns ''status'' = Some (StatusColumn, \<lambda>r. JStr (status r))"
  by (simp add: order_columns_def)

lemma orderBy_createdAt_asc: "orderBy_of (Some ''createdAt-asc'') = (''createdAt'', Some ''asc'')"
  using orderBy_of_field_direction [of "''createdAt''" "''asc''"] by simp

lemma order_rows_createdAt_asc:
  "order_rows (''createdAt'', Some ''asc'') rs = sort_by (\<lambda>a b. createdAt a \<le> createdAt b) rs"
  by (simp add: order_rows_def createdAt_column)

lemma orderBy_createdAt_asc_valid: "orderBy_valid (''createdAt'', Some ''asc'')"
  by (simp add: orderBy_valid_def createdAt_column)

lemma ex_params_distinct: "distinct (map fst ex_params)"
  by (simp add: ex_params_def)

lemma ex_customer_where:
  "whereConditons_customer ex_db (ex_user ''ann@example.com'') ex_params =
     AND [AND [Equals ''status'' (JStr ''PENDING'')], AND [CustomerIdIs (Some ''c1'')]]"
  by (simp add: whereConditons_customer_def ex_params_filters
        userEmail_ex_user ex_customer_found ex_customer_def)

lemma ex_customer_run:
  "getSingleCustomerAllOrder ex_calc ex_db (ex_user ''ann@example.com'')
       (ex_options (Some ''createdAt-asc'')) ex_params =
     Inr \<lparr> meta = \<lparr> page = 1, limit = 10, total = 3, totalPage = Finite 1 \<rparr>,
           data = [include_items ex_db (ex_order ''o1'' ''c1'' ''PENDING'' 10)] \<rparr>"
  unfolding getSingleCustomerAllOrder_def ex_customer_where
  by (simp add: ex_calc_default order_findMany_def order_count_def
        where_option_valid_def matching_def envelope_of_def Math_ceil_div_def
          ORDER_STATUS_def ex_schema_def
        opt_sort_ex_options orderBy_createdAt_asc orderBy_createdAt_asc_valid
        order_rows_createdAt_asc status_column ex_db_def ex_order_def)

text \<open>
  A run: ann lists her orders with a status filter, an empty coupon filter and a search
  term, oldest first.
\<close>

theorem listing_filter_and_sort_witness:
  "getSingleCustomerAllOrder ex_calc ex_db (ex_user ''ann@example.com'')
       (ex_options (Some ''createdAt-asc'')) ex_params =
     Inr \<lparr> meta = \<lparr> page = 1, limit = 10, total = 3, totalPage = Finite 1 \<rparr>,
           data = [include_items ex_db (ex_order ''o1'' ''c1'' ''PENDING'' 10)] \<rparr>
   \<and> equality_conjuncts (filterData ex_params) = [Equals ''status'' (JStr ''PENDING'')]
   \<and> orderBy_of (Some ''createdAt-asc'') = (''createdAt'', Some ''asc'')"
  using listing_filter_and_sort [where calc = ex_calc and p = "ex_options (Some ''createdAt-asc'')"
      and d = ex_db and u = "ex_user ''ann@example.com''", OF ex_params_distinct ex_calc_default]
    ex_customer_run ex_params_conjuncts orderBy_createdAt_asc
  by simp

text \<open>
  Claim C8 as stated fails for the search term: its value is truthy, and no conjunct of
  either listing's filter mentions it.
\<close>

theorem listing_filter_and_sort_counterexample:
  "Boolean (JStr ''shoes'')
   \<and> (''searchTerm'', JStr ''shoes'') \<in> set ex_params
   \<and> Equals ''searchTerm'' (JStr ''shoes'') \<notin> set (equality_conjuncts (filterData ex_params))
   \<and> whereConditons_customer ex_db (ex_user ''ann@example.com'') ex_params =
       AND [AND [Equals ''status'' (JStr ''PENDING'')], AND [CustomerIdIs (Some ''c1'')]]
   \<and> whereConditons_shop ex_vendor ex_params =
       AND [AND [Equals ''status'' (JStr ''PENDING'')], AND [ItemsSomeShopVendor ''v1'']]"
  by (simp add: whereConditons_customer_def whereConditons_shop_def ex_params_filters
        ex_params_conjuncts userEmail_ex_user ex_customer_found ex_customer_def ex_vendor_def)
     (simp add: ex_params_def)

subsection \<open>The search term\<close>

text \<open>
  Claim C9.  Two parameter objects that agree on every property but \<^verbatim>\<open>searchTerm\<close> give
  the same result, in the customer listing and in the vendor listing.
\<close>

theorem searchTerm_ignored:
  assumes "filter (\<lambda>kv. fst kv \<noteq> ''searchTerm'') ps1 = filter (\<lambda>kv. fst kv \<noteq> ''searchTerm'') ps2"
  shows "getSingleCustomerAllOrder calc d u p ps1 = getSingleCustomerAllOrder calc d u p ps2
       \<and> getSpecificShopOrder calc d u p ps1 = getSpecificShopOrder calc d u p ps2"
proof -
  from assms have "filterData ps1 = filterData ps2" by (simp add: filterData_def)
  then have f: "andCondtion_filters ps1 = andCondtion_filters ps2"
    by (simp add: andCondtion_filters_def)
  then have w: "whereConditons_customer d u ps1 = whereConditons_customer d u ps2"
    "\<And>v. whereConditons_shop v ps1 = whereConditons_shop v ps2"
    by (simp_all add: whereConditons_customer_def whereConditons_shop_def)
  show ?thesis
    unfolding getSingleCustomerAllOrder_def getSpecificShopOrder_def w by simp
qed

lemma ex_filterData:
  "filterData ex_params = [(''status'', JStr ''PENDING''), (''couponId'', JStr [])]"
  by (simp add: filterData_def ex_params_def)

text \<open>A run: ann's listing with the search term "shoes" and without a search term.\<close>

theorem searchTerm_ignored_witness:
  "getSingleCustomerAllOrder ex_calc ex_db (ex_user ''ann@example.com'')
       (ex_options (Some ''createdAt-asc''))
       [(''status'', JStr ''PENDING''), (''couponId'', JStr [])] =
     Inr \<lparr> meta = \<lparr> page = 1, limit = 10, total = 3, totalPage = Finite 1 \<rparr>,
           data = [include_items ex_db (ex_order ''o1'' ''c1'' ''PENDING'' 10)] \<rparr>
   \<and> getSingleCustomerAllOrder ex_calc ex_db (ex_user ''ann@example.com'')
       (ex_options (Some ''createdAt-asc'')) ex_params =
     Inr \<lparr> meta = \<lparr> page = 1, limit = 10, total = 3, totalPage = Finite 1 \<rparr>,
           data = [include_items ex_db (ex_order ''o1'' ''c1'' ''PENDING'' 10)] \<rparr>"
proof -
  have "filter (\<lambda>kv. fst kv \<noteq> ''searchTerm'') ex_params =
        filter (\<lambda>kv. fst kv \<noteq> ''searchTerm'') [(''status'', JStr ''PENDING''), (''couponId'', JStr [])]"
    by (simp add: ex_params_def)
  from searchTerm_ignored [OF this, of ex_calc ex_db "ex_user ''ann@example.com''"
      "ex_options (Some ''createdAt-asc'')"] ex_customer_run
  show ?thesis by simp
qed

subsection \<open>The customer listing without a customer record\<close>

lemma where_valid_customer:
  "where_valid d (whereConditons_customer d u ps) = list_all (where_valid d) (andCondtion_filters ps)"
  by (simp add: whereConditons_customer_def)

lemma get_prop_falsy:
  assumes "\<forall>kv \<in> set fd. \<not> Boolean (snd kv)" and "k \<in> fst ` set fd"
  shows "\<not> Boolean (get_prop fd k)"
proof -
  from assms(2) obtain v where "map_of fd k = Some v"
    by (cases "map_of fd k") (auto simp: map_of_eq_None_iff)
  moreover from this have "(k, v) \<in> set fd" by (rule map_of_SomeD)
  ultimately show ?thesis using assms(1) by (auto simp: get_prop_def)
qed

lemma equality_conjuncts_falsy:
  assumes "\<forall>kv \<in> set fd. \<not> Boolean (snd kv)"
  shows "equality_conjuncts fd = []"
  using get_prop_falsy [OF assms] by (auto simp: equality_conjuncts_def filter_empty_conv)

lemma filters_without_truthy:
  assumes "\<forall>kv \<in> set (filterData ps). \<not> Boolean (snd kv)"
  shows "list_all (where_valid d) (andCondtion_filters ps)"
    and "list_all (\<lambda>w. where_holds d w r) (andCondtion_filters ps)"
  using equality_conjuncts_falsy [OF assms] by (simp_all add: andCondtion_filters_def)

lemma customer_listing_isl:
  "isl (getSingleCustomerAllOrder calc d u p ps) \<longleftrightarrow>
     \<not> (list_all (where_valid d) (andCondtion_filters ps) \<and> orderBy_valid (orderBy_of (opt_sort p)))"
  by (cases "calc p")
     (simp add: getSingleCustomerAllOrder_def order_findMany_def order_count_None
        where_option_valid_def where_valid_customer)

text \<open>
  Claim C10.  When no customer record has the user's email, \<open>getSingleCustomerAllOrder\<close>
  builds the ownership condition with an undefined customer id and sends the query.
  \<^item> It raises no not-found error and no error with a status code: an error it returns is
    the client's rejection of the query.
  \<^item> It fails exactly when the same call fails for any other user, with or without a
    customer record.
  \<^item> When the client answers the query with rows, the call returns the envelope with
    these rows, the helper's page and limit, and the number of all orders as total.
  \<^item> With no sort option and no truthy filter parameter the call returns an envelope,
    whose data is a page of all orders of the database, whoever owns them.
\<close>

theorem customer_listing_without_customer:
  assumes nc: "\<forall>c \<in> set (customers d). email c \<noteq> userEmail u"
    and c: "calc p = (pg, lmt, skp)"
  shows "whereConditons_customer d u ps = AND (andCondtion_filters ps @ [AND [CustomerIdIs None]])
     \<and> (\<forall>e. getSingleCustomerAllOrder calc d u p ps = Inl e \<longrightarrow>
           e = PrismaValidationError \<and> statusCode e = None)
     \<and> (\<forall>u'. isl (getSingleCustomerAllOrder calc d u p ps) =
              isl (getSingleCustomerAllOrder calc d u' p ps))
     \<and> (\<forall>rows.
           order_findMany d
             \<lparr> fa_where = Some (AND (andCondtion_filters ps @ [AND [CustomerIdIs None]])),
               fa_skip = skp, fa_take = lmt, fa_orderBy = orderBy_of (opt_sort p) \<rparr> = Inr rows
           \<longrightarrow> getSingleCustomerAllOrder calc d u p ps =
                 Inr \<lparr> meta = \<lparr> page = pg, limit = lmt, total = length (orders d),
                                totalPage = Math_ceil_div (length (orders d)) lmt \<rparr>,
                       data = rows \<rparr>)
     \<and> ((\<forall>kv \<in> set (filterData ps). \<not> Boolean (snd kv)) \<and> opt_sort p = None \<longrightarrow>
          (\<exists>env sorted. getSingleCustomerAllOrder calc d u p ps = Inr env
             \<and> mset sorted = mset (orders d)
             \<and> map row_order (data env) = take lmt (drop skp sorted)
             \<and> total (meta env) = length (orders d)
             \<and> page (meta env) = pg \<and> limit (meta env) = lmt))"
proof -
  from nc have none: "customer_findUnique d (userEmail u) = None"
    by (simp add: customer_findUnique_None)
  then have w: "whereConditons_customer d u ps =
                  AND (andCondtion_filters ps @ [AND [CustomerIdIs None]])"
    by (simp add: whereConditons_customer_def)
  let ?a = "\<lparr> fa_where = Some (whereConditons_customer d u ps), fa_skip = skp, fa_take = lmt,
              fa_orderBy = orderBy_of (opt_sort p) \<rparr>"
  have err: "\<forall>e. getSingleCustomerAllOrder calc d u p ps = Inl e \<longrightarrow>
               e = PrismaValidationError \<and> statusCode e = None"
  proof (intro allI impI)
    fix e assume e: "getSingleCustomerAllOrder calc d u p ps = Inl e"
    show "e = PrismaValidationError \<and> statusCode e = None"
    proof (cases "order_findMany d ?a")
      case (Inl e')
      with e c have "e = e'" by (simp add: getSingleCustomerAllOrder_def)
      with order_findMany_Inl [OF Inl] show ?thesis by simp
    next
      case (Inr rows)
      with e c show ?thesis by (simp add: getSingleCustomerAllOrder_def order_count_None)
    qed
  qed
  have same: "\<forall>u'. isl (getSingleCustomerAllOrder calc d u p ps) =
                   isl (getSingleCustomerAllOrder calc d u' p ps)"
    by (simp add: customer_listing_isl)
  have answer: "\<forall>rows.
           order_findMany d
             \<lparr> fa_where = Some (AND (andCondtion_filters ps @ [AND [CustomerIdIs None]])),
               fa_skip = skp, fa_take = lmt, fa_orderBy = orderBy_of (opt_sort p) \<rparr> = Inr rows
           \<longrightarrow> getSingleCustomerAllOrder calc d u p ps =
                 Inr \<lparr> meta = \<lparr> page = pg, limit = lmt, total = length (orders d),
                                totalPage = Math_ceil_div (length (orders d)) lmt \<rparr>,
                       data = rows \<rparr>"
    by (simp add: getSingleCustomerAllOrder_def c w order_count_None envelope_of_def)
  have plain: "(\<forall>kv \<in> set (filterData ps). \<not> Boolean (snd kv)) \<and> opt_sort p = None \<longrightarrow>
          (\<exists>env sorted. getSingleCustomerAllOrder calc d u p ps = Inr env
             \<and> mset sorted = mset (orders d)
             \<and> map row_order (data env) = take lmt (drop skp sorted)
             \<and> total (meta env) = length (orders d)
             \<and> page (meta env) = pg \<and> limit (meta env) = lmt)"
  proof
    assume h: "(\<forall>kv \<in> set (filterData ps). \<not> Boolean (snd kv)) \<and> opt_sort p = None"
    then have f: "\<forall>kv \<in> set (filterData ps). \<not> Boolean (snd kv)" and s: "opt_sort p = None"
      by simp_all
    have "where_option_valid d (fa_where ?a)"
      by (simp add: where_option_valid_def where_valid_customer filters_without_truthy(1) [OF f])
    moreover have "orderBy_valid (fa_orderBy ?a)"
      by (simp add: s orderBy_of_None orderBy_default_valid)
    ultimately obtain rows where rows: "order_findMany d ?a = Inr rows"
      using order_findMany_valid by blast
    from c rows have run: "getSingleCustomerAllOrder calc d u p ps =
                             Inr (envelope_of pg lmt (length (orders d)) rows)"
      by (simp add: getSingleCustomerAllOrder_def order_count_None)
    have "\<And>r. where_holds d (whereConditons_customer d u ps) r"
      by (simp add: w filters_without_truthy(2) [OF f])
    then have all: "filter (where_holds d (whereConditons_customer d u ps)) (orders d) = orders d"
      by simp
    from customer_listing_page [where calc = calc and p = p, OF c run]
    have pagex: "map row_order (data (envelope_of pg lmt (length (orders d)) rows)) =
            take lmt (drop skp (order_rows (orderBy_of (opt_sort p)) (orders d)))"
      by (simp only: all)
    from run pagex mset_order_rows [of "orderBy_of (opt_sort p)" "orders d"]
    show "\<exists>env sorted. getSingleCustomerAllOrder calc d u p ps = Inr env
             \<and> mset sorted = mset (orders d)
             \<and> map row_order (data env) = take lmt (drop skp sorted)
             \<and> total (meta env) = length (orders d)
             \<and> page (meta env) = pg \<and> limit (meta env) = lmt"
      by (auto simp: envelope_of_def)
  qed
  from w err same answer plain show ?thesis by (intro conjI)
qed

lemma ex_no_customer_where:
  "whereConditons_customer ex_db (ex_user ''bob@example.com'') ps =
     AND (andCondtion_filters ps @ [AND [CustomerIdIs None]])"
  by (simp add: whereConditons_customer_def userEmail_ex_user ex_customer_missing)

text \<open>Three runs of the query layer: a status outside the enum, and two date-time filters.\<close>

lemma ex_status_outside_enum:
  "getSingleCustomerAllOrder ex_calc ex_db (ex_user ''bob@example.com'') (ex_options None)
       [(''status'', JStr ''SHIPPED'')] = Inl PrismaValidationError"
  unfolding getSingleCustomerAllOrder_def ex_no_customer_where
  by (simp add: ex_calc_default order_findMany_def where_option_valid_def
        andCondtion_filters_def equality_conjuncts_def filterData_def get_prop_def
        status_column ORDER_STATUS_def ex_schema_def ex_db_def)

lemma ex_date_filter:
  "getSingleCustomerAllOrder ex_calc ex_db (ex_user ''bob@example.com'') (ex_options None)
       [(''createdAt'', JStr ''1970-01-01T00:00:00.010Z'')] =
     Inr \<lparr> meta = \<lparr> page = 1, limit = 10, total = 3, totalPage = Finite 1 \<rparr>,
           data = [include_items ex_db (ex_order ''o1'' ''c1'' ''PENDING'' 10)] \<rparr>"
  unfolding getSingleCustomerAllOrder_def ex_no_customer_where
  by (simp add: ex_calc_default order_findMany_def order_count_def where_option_valid_def
        matching_def envelope_of_def Math_ceil_div_def
        andCondtion_filters_def equality_conjuncts_def filterData_def get_prop_def
        createdAt_column opt_sort_ex_options orderBy_of_None orderBy_default_valid
        order_rows_default ex_schema_def ex_db_def ex_order_def)

lemma ex_date_filter_rejected:
  "getSingleCustomerAllOrder ex_calc ex_db (ex_user ''bob@example.com'') (ex_options None)
       [(''createdAt'', JStr ''yesterday'')] = Inl PrismaValidationError"
  unfolding getSingleCustomerAllOrder_def ex_no_customer_where
  by (simp add: ex_calc_default order_findMany_def where_option_valid_def
        andCondtion_filters_def equality_conjuncts_def filterData_def get_prop_def
        createdAt_column ex_schema_def ex_db_def)

text \<open>
  A run: bob has no customer record and gets the orders of every customer; with a status
  filter outside the enum his query is rejected, as it is for ann.
\<close>

theorem customer_listing_without_customer_witness:
  "getSingleCustomerAllOrder ex_calc ex_db (ex_user ''bob@example.com'') (ex_options None) [] =
     Inr \<lparr> meta = \<lparr> page = 1, limit = 10, total = 3, totalPage = Finite 1 \<rparr>,
           data = [include_items ex_db (ex_order ''o3'' ''c1'' ''ONGOING'' 30),
                   include_items ex_db (ex_order ''o2'' ''c2'' ''DELIVERED'' 20),
                   include_items ex_db (ex_order ''o1'' ''c1'' ''PENDING'' 10)] \<rparr>
   \<and> getSingleCustomerAllOrder ex_calc ex_db (ex_user ''bob@example.com'') (ex_options None)
       [(''status'', JStr ''SHIPPED'')] = Inl PrismaValidationError
   \<and> isl (getSingleCustomerAllOrder ex_calc ex_db (ex_user ''ann@example.com'') (ex_options None)
       [(''status'', JStr ''SHIPPED'')])"
proof -
  have nc1: "\<forall>c \<in> set (customers ex_db). email c \<noteq> userEmail (ex_user ''bob@example.com'')"
    by (simp add: ex_db_def ex_customer_def userEmail_ex_user)
  from customer_listing_without_customer [where calc = ex_calc and p = "ex_options None"
      and d = ex_db and u = "ex_user ''bob@example.com''" and ps = "[(''status'', JStr ''SHIPPED'')]",
      OF nc1 ex_calc_default] ex_status_outside_enum
  have ann: "isl (getSingleCustomerAllOrder ex_calc ex_db (ex_user ''ann@example.com'')
       (ex_options None) [(''status'', JStr ''SHIPPED'')])"
    by (metis sum.disc(1))
  have nc: "\<forall>c \<in> set (customers ex_db). email c \<noteq> userEmail (ex_user ''bob@example.com'')"
    by (simp add: ex_db_def ex_customer_def userEmail_ex_user)
  have w: "whereConditons_customer ex_db (ex_user ''bob@example.com'') [] =
             AND [AND [CustomerIdIs None]]"
    by (simp add: whereConditons_customer_def andCondtion_filters_def filterData_def
          userEmail_ex_user ex_customer_missing)
  have run: "getSingleCustomerAllOrder ex_calc ex_db (ex_user ''bob@example.com'') (ex_options None) [] =
     Inr \<lparr> meta = \<lparr> page = 1, limit = 10, total = 3, totalPage = Finite 1 \<rparr>,
           data = [include_items ex_db (ex_order ''o3'' ''c1'' ''ONGOING'' 30),
                   include_items ex_db (ex_order ''o2'' ''c2'' ''DELIVERED'' 20),
                   include_items ex_db (ex_order ''o1'' ''c1'' ''PENDING'' 10)] \<rparr>"
    unfolding getSingleCustomerAllOrder_def w
    by (simp add: ex_calc_default order_findMany_def order_count_def
          where_option_valid_def matching_def envelope_of_def Math_ceil_div_def
          ORDER_STATUS_def ex_schema_def
          orderBy_of_None orderBy_default_valid order_rows_default
          opt_sort_ex_options ex_db_def ex_order_def)
  from customer_listing_without_customer [where calc = ex_calc and p = "ex_options None"
      and d = ex_db and u = "ex_user ''bob@example.com''" and ps = "[]", OF nc ex_calc_default]
    run ex_status_outside_enum ann
  show ?thesis by simp
qed

section \<open>Further properties\<close>

subsection \<open>The vendor listing\<close>

lemma status_filter_holds:
  "where_holds d (Equals ''status'' (JStr s)) r \<longleftrightarrow> status r = s"
  by (simp add: status_column)

lemma ex_vendor_found: "vendor_findUniqueOrThrow ex_db ''vic@example.com'' = Inr ex_vendor"
  by (simp add: vendor_findUniqueOrThrow_def ex_db_def ex_vendor_def)

lemma ex_shop_where:
  "whereConditons_shop ex_vendor ex_params =
     AND [AND [Equals ''status'' (JStr ''PENDING'')], AND [ItemsSomeShopVendor ''v1'']]"
  by (simp add: whereConditons_shop_def ex_params_filters ex_vendor_def)

lemma ex_shop_run:
  "getSpecificShopOrder ex_calc ex_db (ex_user ''vic@example.com'') (ex_options None) ex_params =
     Inr \<lparr> meta = \<lparr> page = 1, limit = 10, total = 1, totalPage = Finite 1 \<rparr>,
           data = [include_items ex_db (ex_order ''o1'' ''c1'' ''PENDING'' 10)] \<rparr>"
  unfolding getSpecificShopOrder_def userEmail_ex_user ex_vendor_found sum.case ex_shop_where
  by (simp add: ex_calc_default order_findMany_def order_count_def
        where_option_valid_def matching_def envelope_of_def Math_ceil_div_def
          ORDER_STATUS_def ex_schema_def
        opt_sort_ex_options orderBy_of_None orderBy_default_valid order_rows_default
        status_column ex_db_def ex_order_def new_item_def ex_item_def)

text \<open>
  The vendor listing counts what it lists: in an envelope that \<open>getSpecificShopOrder\<close>
  returns, the user is a vendor, the total is the number of orders that match the
  where-condition, and the data is the page of these orders.
\<close>

theorem shop_listing_total:
  assumes c: "calc p = (pg, lmt, skp)"
    and r: "getSpecificShopOrder calc d u p ps = Inr env"
  shows "\<exists>v. vendor_findUniqueOrThrow d (userEmail u) = Inr v
     \<and> total (meta env) = length (filter (where_holds d (whereConditons_shop v ps)) (orders d))
     \<and> totalPage (meta env) = Math_ceil_div (total (meta env)) lmt
     \<and> map row_order (data env) =
         take lmt (drop skp (order_rows (orderBy_of (opt_sort p))
           (filter (where_holds d (whereConditons_shop v ps)) (orders d))))"
proof -
  from shop_listing_page [where calc = calc and p = p, OF c r] obtain v where
    v: "vendor_findUniqueOrThrow d (userEmail u) = Inr v"
       "map row_order (data env) =
         take lmt (drop skp (order_rows (orderBy_of (opt_sort p))
           (filter (where_holds d (whereConditons_shop v ps)) (orders d))))"
       "total (meta env) = length (filter (where_holds d (whereConditons_shop v ps)) (orders d))"
    by blast
  let ?a = "\<lparr> fa_where = Some (whereConditons_shop v ps), fa_skip = skp, fa_take = lmt,
              fa_orderBy = orderBy_of (opt_sort p) \<rparr>"
  from r c v(1) obtain rows where rows: "order_findMany d ?a = Inr rows"
    by (cases "order_findMany d ?a") (auto simp: getSpecificShopOrder_def)
  from r c v(1) rows obtain tot where "env = envelope_of pg lmt tot rows"
    by (cases "order_count d (Some (whereConditons_shop v ps))")
       (auto simp: getSpecificShopOrder_def)
  then have "totalPage (meta env) = Math_ceil_div (total (meta env)) lmt"
    by (simp add: envelope_of_def)
  with v show ?thesis by blast
qed

text \<open>A run: the vendor of shop s1 lists the pending orders with items of the shop.\<close>

theorem shop_listing_total_witness:
  "getSpecificShopOrder ex_calc ex_db (ex_user ''vic@example.com'') (ex_options None) ex_params =
     Inr \<lparr> meta = \<lparr> page = 1, limit = 10, total = 1, totalPage = Finite 1 \<rparr>,
           data = [include_items ex_db (ex_order ''o1'' ''c1'' ''PENDING'' 10)] \<rparr>
   \<and> length (filter (where_holds ex_db (whereConditons_shop ex_vendor ex_params)) (orders ex_db)) = 1"
proof -
  have n: "length (filter (where_holds ex_db
              (AND [AND [Equals ''status'' (JStr ''PENDING'')], AND [ItemsSomeShopVendor ''v1'']]))
              (orders ex_db)) = 1"
    by (simp add: status_column ex_db_def ex_order_def new_item_def ex_item_def)
  from shop_listing_total [where calc = ex_calc and p = "ex_options None", OF ex_calc_default ex_shop_run]
    ex_shop_run n ex_shop_where
  show ?thesis by simp
qed

text \<open>
  A user without a vendor record gets the client's not-found error from the vendor
  listing, before any order is read.
\<close>

theorem shop_listing_without_vendor:
  assumes "\<forall>v \<in> set (vendors d). vendor_email v \<noteq> userEmail u"
  shows "getSpecificShopOrder calc d u p ps = Inl PrismaNotFoundError"
proof -
  from assms have "find (\<lambda>v. vendor_email v = userEmail u) (vendors d) = None"
    by (auto simp: find_None_iff)
  then show ?thesis
    by (simp add: getSpecificShopOrder_def vendor_findUniqueOrThrow_def)
qed

theorem shop_listing_without_vendor_witness:
  "getSpecificShopOrder ex_calc ex_db (ex_user ''ann@example.com'') (ex_options None) [] =
     Inl PrismaNotFoundError"
  using shop_listing_without_vendor [of ex_db "ex_user ''ann@example.com''" ex_calc "ex_options None" "[]"]
  by (simp add: ex_db_def ex_vendor_def userEmail_ex_user)

subsection \<open>Payment failure\<close>

text \<open>
  When payment initiation throws, \<open>createOrderIntoDB\<close> passes the error on and the order
  and its items stay in the database: the insert is not undone.
\<close>

theorem createOrder_payment_failure:
  assumes "customer_findUnique d (userEmail u) = Some c"
    and "blacklistedInOrder d req = None"
    and "insert_error env = None"
    and "pay \<lparr> orderData = req_subTotal req, txn = generateTransactionId env,
               customerData = c, orderId = new_id env \<rparr> = Inl e"
  shows "createOrderIntoDB env pay d req u =
           (Inl e, d\<lparr> orders := orders d @ [new_order env req c],
                      orderItems := orderItems d @ map (new_item (new_id env)) (req_items req) \<rparr>)"
  using assms by (simp add: createOrderIntoDB_def order_create_def new_order_def)

theorem createOrder_payment_failure_witness:
  "createOrderIntoDB ex_env (\<lambda>q. Inl (PaymentError ''gateway down'')) ex_db (ex_request [''s1''])
       (ex_user ''ann@example.com'') =
     (Inl (PaymentError ''gateway down''),
      ex_db\<lparr> orders := orders ex_db @ [new_order ex_env (ex_request [''s1'']) ex_customer],
             orderItems := orderItems ex_db @ [new_item ''o4'' (ex_item ''s1'')] \<rparr>)"
proof -
  have b: "blacklistedInOrder ex_db (ex_request [''s1'']) = None"
    by (simp add: blacklistedInOrder_def blacklistedShopIds_def ex_db_def ex_request_def ex_item_def)
  have f: "customer_findUnique ex_db (userEmail (ex_user ''ann@example.com'')) = Some ex_customer"
    by (simp add: userEmail_ex_user ex_customer_found)
  have i: "insert_error ex_env = None" by (simp add: ex_env_def)
  from createOrder_payment_failure [where pay = "\<lambda>q. Inl (PaymentError ''gateway down'')", OF f b i]
  show ?thesis by (simp add: ex_env_def ex_request_def)
qed

subsection \<open>The listing of all orders\<close>

text \<open>
  Whenever the ordering validates, \<open>getAllOrder\<close> returns an envelope whose data is the
  page of all orders and whose total is their number.
\<close>

theorem getAllOrder_envelope:
  assumes c: "calc p = (pg, lmt, skp)" and v: "orderBy_valid (orderBy_of (opt_sort p))"
  shows "\<exists>env. getAllOrder calc d p = Inr env
       \<and> map row_order (data env) =
           take lmt (drop skp (order_rows (orderBy_of (opt_sort p)) (orders d)))
       \<and> total (meta env) = length (orders d)
       \<and> page (meta env) = pg \<and> limit (meta env) = lmt
       \<and> totalPage (meta env) = Math_ceil_div (length (orders d)) lmt"
proof -
  let ?a = "\<lparr> fa_where = None, fa_skip = skp, fa_take = lmt,
              fa_orderBy = orderBy_of (opt_sort p) \<rparr>"
  have "where_option_valid d (fa_where ?a)" by (simp add: where_option_valid_def)
  moreover from v have "orderBy_valid (fa_orderBy ?a)" by simp
  ultimately obtain rows where rows: "order_findMany d ?a = Inr rows"
    using order_findMany_valid by blast
  have run: "getAllOrder calc d p = Inr (envelope_of pg lmt (length (orders d)) rows)"
    by (simp add: getAllOrder_def c rows order_count_None)
  from order_findMany_Inr(3) [OF rows] run show ?thesis
    by (simp add: envelope_of_def matching_def)
qed

theorem getAllOrder_envelope_witness:
  "getAllOrder ex_calc ex_db (ex_options None) =
     Inr \<lparr> meta = \<lparr> page = 1, limit = 10, total = 3, totalPage = Finite 1 \<rparr>,
           data = [include_items ex_db (ex_order ''o3'' ''c1'' ''ONGOING'' 30),
                   include_items ex_db (ex_order ''o2'' ''c2'' ''DELIVERED'' 20),
                   include_items ex_db (ex_order ''o1'' ''c1'' ''PENDING'' 10)] \<rparr>"
proof -
  have v: "orderBy_valid (orderBy_of (opt_sort (ex_options None)))"
    by (simp add: opt_sort_ex_options orderBy_of_None orderBy_default_valid)
  have run: "getAllOrder ex_calc ex_db (ex_options None) =
     Inr \<lparr> meta = \<lparr> page = 1, limit = 10, total = 3, totalPage = Finite 1 \<rparr>,
           data = [include_items ex_db (ex_order ''o3'' ''c1'' ''ONGOING'' 30),
                   include_items ex_db (ex_order ''o2'' ''c2'' ''DELIVERED'' 20),
                   include_items ex_db (ex_order ''o1'' ''c1'' ''PENDING'' 10)] \<rparr>"
    by (simp add: getAllOrder_def ex_calc_default order_findMany_def order_count_def
          where_option_valid_def matching_def envelope_of_def Math_ceil_div_def
          ORDER_STATUS_def ex_schema_def
          orderBy_of_None orderBy_default_valid order_rows_default
          opt_sort_ex_options ex_db_def ex_order_def)
  from getAllOrder_envelope [where calc = ex_calc and p = "ex_options None" and d = ex_db,
      OF ex_calc_default v] run
  show ?thesis by simp
qed

end
